theory Spec2Isabelle
  imports Complex_Main "HOL-Library.Sublist"
begin

section \<open>Shared data model\<close>

text \<open>
  Strings are lists of characters.  A \<^verbatim>\<open>Buffer\<close> is the list of its bytes; an absent
  \<^verbatim>\<open>content\<close> property (\<^verbatim>\<open>undefined\<close>) is \<open>None\<close>.  A present buffer is always
  truthy in JavaScript, also when it is empty.
\<close>

record repo_file =
  path :: string
  content :: "string option"
  isBinary :: bool

text \<open>\<^verbatim>\<open>RuleHit\<close> of \<^verbatim>\<open>heuristics.ts\<close>.\<close>

record rule_hit =
  rule :: string
  hit_file :: string
  hit_line :: nat
  message :: string
  evidence :: "string option"

text \<open>Decimal rendering of a non-negative integer, as a template literal prints it.\<close>

fun showNat :: "nat \<Rightarrow> string" where
  "showNat n =
     (if n < 10 then [''0123456789'' ! n]
      else showNat (n div 10) @ [''0123456789'' ! (n mod 10)])"

declare showNat.simps [simp del]

text \<open>\<^verbatim>\<open>Array.prototype.join\<close> on a list of strings.\<close>

fun joinWith :: "string \<Rightarrow> string list \<Rightarrow> string" where
  "joinWith sep [] = []"
| "joinWith sep [x] = x"
| "joinWith sep (x # y # ys) = x @ sep @ joinWith sep (y # ys)"

text \<open>\<^verbatim>\<open>String.prototype.includes\<close>: the needle occurs as a contiguous substring.\<close>

fun includesStr :: "string \<Rightarrow> string \<Rightarrow> bool" where
  "includesStr [] needle = (needle = [])"
| "includesStr (c # cs) needle = (prefix needle (c # cs) \<or> includesStr cs needle)"


section \<open>Sampler: \<^verbatim>\<open>intelligentSampling\<close> (sampling.ts)\<close>

text \<open>\<^verbatim>\<open>FileWithPriority\<close>: the file spread into a new object, plus score and reason.\<close>

record file_with_priority = repo_file +
  priority :: nat
  reason :: string

text \<open>
  \<^verbatim>\<open>micromatch.isMatch(path, patterns, { nocase })\<close> belongs to a library outside the
  repository.  The sampler takes it as a parameter: path, glob list, the \<^verbatim>\<open>nocase\<close> flag.
\<close>

type_synonym matcher = "string \<Rightarrow> string list \<Rightarrow> bool \<Rightarrow> bool"

text \<open>
  The running pair \<^verbatim>\<open>(priority, reasons)\<close> of the scoring loop body; \<open>scoreOf\<close> below is
  the body up to the push, for a file that has content.
\<close>

definition award :: "bool \<Rightarrow> nat \<Rightarrow> string \<Rightarrow> nat \<times> string list \<Rightarrow> nat \<times> string list" where
  "award c pts tag a = (if c then (fst a + pts, snd a @ [tag]) else a)"

text \<open>
  Priority 9 of the source: \<^verbatim>\<open>sizeKb = content.length / 1024\<close>; when \<^verbatim>\<open>sizeKb > 10\<close> the
  bonus is \<^verbatim>\<open>min(5, floor(sizeKb / 10))\<close> and the tag prints \<^verbatim>\<open>floor(sizeKb)\<close>.  On
  byte counts these are integer divisions by 10240 and 1024.
\<close>

definition sizeAward :: "nat \<Rightarrow> nat \<times> string list \<Rightarrow> nat \<times> string list" where
  "sizeAward len a =
     (if len > 10240 then
        (let sizeBonus = min 5 (len div 10240)
         in (fst a + sizeBonus,
             if sizeBonus > 0 then snd a @ [''large-file-'' @ showNat (len div 1024) @ ''kb'']
             else snd a))
      else a)"

definition scoreOf :: "matcher \<Rightarrow> string list \<Rightarrow> repo_file \<Rightarrow> nat \<times> string list" where
  "scoreOf isMatch flaggedFiles f =
     (let p = path f;
          a = (0, []);
          a = award (p \<in> set flaggedFiles) 10 ''heuristic-hit'' a;
          a = award (isMatch p [''**/app/**/route.ts'', ''**/app/**/route.js'', ''**/pages/api/**/*''] False)
                8 ''api-route'' a;
          a = award (isMatch p [''**/app/**/page.tsx'', ''**/app/**/page.jsx'', ''**/pages/**/*.tsx''] False)
                7 ''page-component'' a;
          a = award (isMatch p [''**/app/**/layout.tsx'', ''**/app/**/layout.jsx'', ''**/app/layout.*''] False)
                6 ''layout'' a;
          a = award (isMatch p [''**/*auth*'', ''**/*login*'', ''**/*password*'', ''**/*token*'',
                                ''**/*session*''] True)
                9 ''auth-security'' a;
          a = award (isMatch p [''**/prisma/**/*'', ''**/lib/db/**/*'', ''**/*database*'', ''**/*query*''] True)
                7 ''data-access'' a;
          a = award (isMatch p [''**/middleware.ts'', ''**/middleware.js'', ''**/_middleware.*''] False)
                8 ''middleware'' a;
          a = award (isMatch p [''**/next.config.*'', ''**/tailwind.config.*'', ''**/tsconfig.json''] False)
                5 ''config'' a;
          a = sizeAward (length (the (content f))) a;
          a = award (isMatch p [''**/lib/**/*.ts'', ''**/utils/**/*.ts''] False) 4 ''lib-util'' a;
          a = award (isMatch p [''**/components/**/*.tsx'', ''**/components/**/*.jsx''] False)
                3 ''component'' a
      in a)"

text \<open>The object pushed to \<^verbatim>\<open>scored\<close>: \<^verbatim>\<open>reasons.join(',') || 'standard'\<close>.\<close>

definition scoreFile :: "matcher \<Rightarrow> string list \<Rightarrow> repo_file \<Rightarrow> file_with_priority" where
  "scoreFile isMatch flaggedFiles f =
     (let a = scoreOf isMatch flaggedFiles f
      in repo_file.extend f
           \<lparr> priority = fst a,
             reason = (if joinWith '','' (snd a) = [] then ''standard'' else joinWith '','' (snd a)) \<rparr>)"

text \<open>
  The scoring loop skips binary files and files without content, then the array is sorted
  in place by \<^verbatim>\<open>b.priority - a.priority\<close>.  \<^verbatim>\<open>Array.prototype.sort\<close> is stable, as is
  \<^const>\<open>sort_key\<close>.
\<close>

definition scoredFiles :: "matcher \<Rightarrow> repo_file list \<Rightarrow> rule_hit list \<Rightarrow> file_with_priority list" where
  "scoredFiles isMatch files heuristics =
     sort_key (\<lambda>f. - int (priority f))
       (map (scoreFile isMatch (map hit_file heuristics))
          (filter (\<lambda>f. \<not> isBinary f \<and> content f \<noteq> None) files))"

text \<open>A quota is a number of files or \<^verbatim>\<open>Infinity\<close>.\<close>

datatype quota = Finite nat | Infinity

fun belowQuota :: "nat \<Rightarrow> quota \<Rightarrow> bool" where
  "belowQuota n (Finite q) = (n < q)"
| "belowQuota n Infinity = True"

text \<open>
  \<^verbatim>\<open>typeQuotas[primaryType] ?? 0\<close>.  The fractions are \<^verbatim>\<open>Math.floor(maxFiles * 0.25)\<close>,
  \<^verbatim>\<open>* 0.20\<close>, \<^verbatim>\<open>* 0.15\<close> and \<^verbatim>\<open>* 0.10\<close>, written as integer divisions.
\<close>

definition typeQuotas :: "nat \<Rightarrow> string \<Rightarrow> quota" where
  "typeQuotas maxFiles primaryType =
     (if primaryType = ''api-route'' then Finite (maxFiles div 4)
      else if primaryType = ''page-component'' then Finite (maxFiles div 5)
      else if primaryType = ''auth-security'' then Finite ((maxFiles * 15) div 100)
      else if primaryType = ''data-access'' then Finite (maxFiles div 10)
      else if primaryType = ''middleware'' then Finite 2
      else if primaryType = ''layout'' then Finite 2
      else if primaryType = ''heuristic-hit'' then Infinity
      else Finite 0)"

text \<open>\<^verbatim>\<open>file.reason.split(',')[0]\<close>: the text before the first comma.\<close>

definition primaryTypeOf :: "file_with_priority \<Rightarrow> string" where
  "primaryTypeOf f = takeWhile (\<lambda>c. c \<noteq> CHR '','') (reason f)"

text \<open>
  The two selection loops.  \<^verbatim>\<open>selected.includes(file)\<close> compares object identity, so each
  scored object is paired with its position in the sorted array and the position is what is
  compared.  The first clause of each conditional is the \<^verbatim>\<open>break\<close>.
\<close>

fun firstPass :: "nat \<Rightarrow> (nat \<times> file_with_priority) list \<Rightarrow> (nat \<times> file_with_priority) list
    \<Rightarrow> (nat \<times> file_with_priority) list" where
  "firstPass maxFiles [] selected = selected"
| "firstPass maxFiles (file # rest) selected =
     (if length selected \<ge> maxFiles then selected
      else
        (let primaryType = primaryTypeOf (snd file);
             quota = typeQuotas maxFiles primaryType;
             currentCount = length (filter (\<lambda>f. includesStr (reason (snd f)) primaryType) selected)
         in if belowQuota currentCount quota
            then firstPass maxFiles rest (selected @ [file])
            else firstPass maxFiles rest selected))"

fun secondPass :: "nat \<Rightarrow> (nat \<times> file_with_priority) list \<Rightarrow> (nat \<times> file_with_priority) list
    \<Rightarrow> (nat \<times> file_with_priority) list" where
  "secondPass maxFiles [] selected = selected"
| "secondPass maxFiles (file # rest) selected =
     (if length selected \<ge> maxFiles then selected
      else if fst file \<notin> set (map fst selected)
        then secondPass maxFiles rest (selected @ [file])
        else secondPass maxFiles rest selected)"

text \<open>
  The whole function; \<^verbatim>\<open>maxFiles\<close> is a number of files.  The final
  \<^verbatim>\<open>selected.slice(0, maxFiles)\<close> is \<^const>\<open>take\<close>.  The \<^verbatim>\<open>console.log\<close> call has no effect
  on the result.
\<close>

definition intelligentSampling ::
    "matcher \<Rightarrow> repo_file list \<Rightarrow> rule_hit list \<Rightarrow> nat \<Rightarrow> file_with_priority list" where
  "intelligentSampling isMatch files heuristics maxFiles =
     (let scored = enumerate 0 (scoredFiles isMatch files heuristics);
          selected = firstPass maxFiles scored [];
          selected = secondPass maxFiles scored selected
      in map snd (take maxFiles selected))"


section \<open>Strings\<close>

text \<open>
  JavaScript strings are modelled over the code units 0 to 255.  \<^verbatim>\<open>String.prototype.trim\<close>
  removes white space and line terminators at both ends; in this range they are tab, line
  feed, vertical tab, form feed, carriage return, space and the no-break space.
\<close>

definition isSpace :: "char \<Rightarrow> bool" where
  "isSpace c = (of_char c \<in> set [9, 10, 11, 12, 13, 32, 160 :: nat])"

definition trim :: "string \<Rightarrow> string" where
  "trim s = rev (dropWhile isSpace (rev (dropWhile isSpace s)))"

text \<open>\<^verbatim>\<open>s.replace(/\n{3,}/g, '\n\n')\<close>: every run of three or more line feeds becomes two.\<close>

fun collapseNewlines :: "string \<Rightarrow> string" where
  "collapseNewlines (a # b # c # cs) =
     (if a = CHR 0x0A \<and> b = CHR 0x0A \<and> c = CHR 0x0A then collapseNewlines (b # c # cs)
      else a # collapseNewlines (b # c # cs))"
| "collapseNewlines cs = cs"

text \<open>\<^verbatim>\<open>indexOf\<close> and \<^verbatim>\<open>lastIndexOf\<close> of one character; \<open>None\<close> stands for \<open>-1\<close>.\<close>

fun indexOf :: "string \<Rightarrow> char \<Rightarrow> nat option" where
  "indexOf [] c = None"
| "indexOf (x # xs) c = (if x = c then Some 0 else map_option Suc (indexOf xs c))"

definition lastIndexOf :: "string \<Rightarrow> char \<Rightarrow> nat option" where
  "lastIndexOf s c = map_option (\<lambda>i. length s - 1 - i) (indexOf (rev s) c)"

text \<open>\<^verbatim>\<open>s.slice(i, j)\<close> for \<open>0 \<le> i\<close>, \<open>0 \<le> j\<close>.\<close>

definition slice :: "'a list \<Rightarrow> nat \<Rightarrow> nat \<Rightarrow> 'a list" where
  "slice s i j = take (j - i) (drop i s)"

text \<open>\<^verbatim>\<open>endsWith\<close>.\<close>

definition endsWith :: "string \<Rightarrow> string \<Rightarrow> bool" where
  "endsWith s suf = suffix suf s"

text \<open>ASCII upper case, for the type names passed to \<^verbatim>\<open>toUpperCase\<close>.\<close>

definition toUpperChar :: "char \<Rightarrow> char" where
  "toUpperChar c =
     (if 97 \<le> (of_char c :: nat) \<and> (of_char c :: nat) \<le> 122 then char_of (of_char c - 32 :: nat) else c)"

definition toUpperCase :: "string \<Rightarrow> string" where
  "toUpperCase s = map toUpperChar s"


section \<open>Findings and reports (types.ts)\<close>

datatype issue_type = Security | Performance | UX | Backend | DB | Lint | General

datatype severity = Critical | High | Medium | Low | Info

fun typeName :: "issue_type \<Rightarrow> string" where
  "typeName Security = ''security''"
| "typeName Performance = ''performance''"
| "typeName UX = ''ux''"
| "typeName Backend = ''backend''"
| "typeName DB = ''db''"
| "typeName Lint = ''lint''"
| "typeName General = ''general''"

fun severityName :: "severity \<Rightarrow> string" where
  "severityName Critical = ''critical''"
| "severityName High = ''high''"
| "severityName Medium = ''medium''"
| "severityName Low = ''low''"
| "severityName Info = ''info''"

record doc_ref =
  doc_title :: string
  doc_url :: string

record codemod_plan =
  cm_name :: string
  cm_command :: string
  cm_description :: string
  cm_transform :: "string option"

text \<open>\<^verbatim>\<open>Issue\<close>.  Optional properties are options.\<close>

record issue =
  issue_id :: string
  itype :: issue_type
  severity :: severity
  title :: string
  description :: string
  issue_file :: "string option"
  issue_line :: "nat option"
  codeFrame :: "string option"
  recommendation :: "string option"
  codemod :: "codemod_plan option"
  docs :: "doc_ref list option"
  issue_evidence :: "string list option"

record repo_ref =
  owner :: string
  repo :: string
  ref :: "string option"

text \<open>
  \<^verbatim>\<open>ScanResult\<close>.  \<^verbatim>\<open>stats\<close> is a \<^verbatim>\<open>Record<string, number>\<close>: its entries in insertion
  order.  The provider is kept as the string the report stores.
\<close>

record scan_result =
  sr_repo :: repo_ref
  startedAt :: string
  finishedAt :: string
  stats :: "(string \<times> nat) list"
  issues :: "issue list"
  sr_provider :: string
  sr_model :: string
  openrouterProvider :: "string option"
  markdown :: string
  warnings :: "string list option"


section \<open>Report rendering (report.ts)\<close>

text \<open>
  Truthiness of an optional string: present and not empty.  Truthiness of an optional
  number: present and not zero.
\<close>

definition truthyStr :: "string option \<Rightarrow> bool" where
  "truthyStr s = (case s of None \<Rightarrow> False | Some t \<Rightarrow> t \<noteq> [])"

definition truthyNum :: "nat option \<Rightarrow> bool" where
  "truthyNum n = (case n of None \<Rightarrow> False | Some k \<Rightarrow> k \<noteq> 0)"

definition formatIssue :: "issue \<Rightarrow> nat \<Rightarrow> string" where
  "formatIssue i index =
     (let lines = [''### '' @ showNat (index + 1) @ ''. '' @ title i,
                   ''- **Type:** '' @ typeName (itype i),
                   ''- **Severity:** '' @ severityName (severity i)];
          lines = (if truthyStr (issue_file i) then
                     lines @ [''- **Location:** '' @
                       (if truthyNum (issue_line i)
                        then the (issue_file i) @ '':'' @ showNat (the (issue_line i))
                        else the (issue_file i))]
                   else lines);
          lines = (case issue_evidence i of
                     Some ev \<Rightarrow> if length ev > 0
                                then lines @ [''- **Evidence:** '' @ joinWith ''; '' ev] else lines
                   | None \<Rightarrow> lines);
          lines = lines @ [''''];
          lines = (if description i \<noteq> [] then lines @ [trim (description i), ''''] else lines);
          lines = (if truthyStr (recommendation i)
                   then lines @ [''**Recommendation:** '' @ trim (the (recommendation i)), '''']
                   else lines);
          lines = (case docs i of
                     Some ds \<Rightarrow> if length ds > 0
                                then lines @ [''**References:**'']
                                  @ map (\<lambda>d. ''- ['' @ doc_title d @ '']('' @ doc_url d @ '')'') ds @ ['''']
                                else lines
                   | None \<Rightarrow> lines);
          lines = (case codemod i of
                     Some cm \<Rightarrow>
                       lines @ [''**Suggested Codemod:**'', '''', ''```bash'', cm_command cm, ''```'']
                         @ (if cm_description cm \<noteq> [] then ['''', trim (cm_description cm)] else [])
                         @ ['''']
                   | None \<Rightarrow> lines)
      in collapseNewlines (joinWith [CHR 0x0A] lines))"

fun severityRank :: "severity \<Rightarrow> nat" where
  "severityRank Critical = 5"
| "severityRank High = 4"
| "severityRank Medium = 3"
| "severityRank Low = 2"
| "severityRank Info = 1"

definition order :: "issue_type list" where
  "order = [Security, Performance, Backend, UX, DB, Lint, General]"

text \<open>\<^verbatim>\<open>order.indexOf(t)\<close>; every type occurs in \<open>order\<close>.\<close>

fun orderIndex :: "issue_type list \<Rightarrow> issue_type \<Rightarrow> int" where
  "orderIndex [] t = - 1"
| "orderIndex (x # xs) t = (if x = t then 0 else (if orderIndex xs t < 0 then - 1 else 1 + orderIndex xs t))"

text \<open>
  The \<^verbatim>\<open>Map\<close> from type to bucket, as an association list in insertion order.  The loop body
  reads the bucket (or a fresh array), pushes the issue and stores the bucket; storing under
  an existing key keeps the key's position.
\<close>

fun mapGet :: "('k \<times> 'v) list \<Rightarrow> 'k \<Rightarrow> 'v option" where
  "mapGet [] k = None"
| "mapGet ((k', v) # m) k = (if k' = k then Some v else mapGet m k)"

fun mapSet :: "('k \<times> 'v) list \<Rightarrow> 'k \<Rightarrow> 'v \<Rightarrow> ('k \<times> 'v) list" where
  "mapSet [] k v = [(k, v)]"
| "mapSet ((k', v') # m) k v = (if k' = k then (k, v) # m else (k', v') # mapSet m k v)"

definition groupStep :: "(issue_type \<times> issue list) list \<Rightarrow> issue \<Rightarrow> (issue_type \<times> issue list) list" where
  "groupStep grouped i =
     (let bucket = (case mapGet grouped (itype i) of None \<Rightarrow> [] | Some b \<Rightarrow> b)
      in mapSet grouped (itype i) (bucket @ [i]))"

definition groupIssues :: "issue list \<Rightarrow> (issue_type \<times> issue list) list" where
  "groupIssues is = foldl groupStep [] is"

text \<open>
  \<^verbatim>\<open>sortedTypes\<close> and the per-type list after \<^verbatim>\<open>list.sort\<close> by descending severity rank.
  Both sorts are stable.
\<close>

definition sortedTypes :: "(issue_type \<times> issue list) list \<Rightarrow> issue_type list" where
  "sortedTypes grouped = sort_key (orderIndex order) (map fst grouped)"

definition sortBySeverity :: "issue list \<Rightarrow> issue list" where
  "sortBySeverity l = sort_key (\<lambda>i. - int (severityRank (severity i))) l"

text \<open>
  The sections of the findings part, in the order in which the loop over \<^verbatim>\<open>sortedTypes\<close>
  renders them: each type with its sorted list; empty lists are skipped.
\<close>

definition findingSections :: "issue list \<Rightarrow> (issue_type \<times> issue list) list" where
  "findingSections is =
     (let grouped = groupIssues is
      in concat (map (\<lambda>t. let l = (case mapGet grouped t of None \<Rightarrow> [] | Some b \<Rightarrow> b)
                          in if length l = 0 then [] else [(t, sortBySeverity l)])
                   (sortedTypes grouped)))"

definition sectionLines :: "issue_type \<times> issue list \<Rightarrow> string list" where
  "sectionLines sec =
     [''### '' @ toUpperCase (typeName (fst sec)) @ '' ('' @ showNat (length (snd sec)) @ '')'', '''']
     @ concat (map (\<lambda>(idx, i). [formatIssue i idx, '''']) (enumerate 0 (snd sec)))"

text \<open>
  \<^verbatim>\<open>buildMarkdownReport\<close>.  \<^verbatim>\<open>new Date(s).toLocaleString()\<close> depends on the host's locale
  and time zone and is a parameter.
\<close>

definition buildMarkdownReport :: "(string \<Rightarrow> string) \<Rightarrow> scan_result \<Rightarrow> string" where
  "buildMarkdownReport toLocaleString result =
     (let lines = [''# Audit Report: '' @ owner (sr_repo result) @ ''/'' @ repo (sr_repo result),
                   '''',
                   ''- **Reference:** '' @ (case ref (sr_repo result) of None \<Rightarrow> ''HEAD'' | Some r \<Rightarrow> r),
                   ''- **Started:** '' @ toLocaleString (startedAt result),
                   ''- **Finished:** '' @ toLocaleString (finishedAt result),
                   ''- **Provider:** '' @ sr_provider result,
                   ''- **Model:** '' @ sr_model result @
                      (if truthyStr (openrouterProvider result)
                       then '' ('' @ the (openrouterProvider result) @ '')'' else ''''),
                   '''',
                   ''## Repository Stats'',
                   '''',
                   ''| Metric | Value |'',
                   ''| --- | ---: |'']
                  @ map (\<lambda>(key, val). ''| '' @ key @ '' | '' @ showNat val @ '' |'') (stats result)
                  @ [''''];
          lines = (case warnings result of
                     Some ws \<Rightarrow> if length ws > 0
                                then lines @ [''> **Warnings:**''] @ map (\<lambda>w. ''> - '' @ w) ws @ ['''']
                                else lines
                   | None \<Rightarrow> lines)
      in if length (issues result) = 0 then
           joinWith [CHR 0x0A]
             (lines @ [''## Findings'', '''',
                ''No issues were detected in the analysed samples. Consider increasing sampling parameters or rerunning if this is unexpected.''])
         else
           trim (collapseNewlines (joinWith [CHR 0x0A]
             (lines @ [''## Findings'', ''''] @ concat (map sectionLines (findingSections (issues result)))))))"


section \<open>Progress events (streaming.ts)\<close>

datatype ProgressStage =
  Initializing | Downloading | Extracting | Sampling | Parsing | Heuristics | Analyzing
  | Synthesizing | Complete | Error

record progress_details =
  filesProcessed :: "nat option"
  totalFiles :: "nat option"
  chunksCreated :: "nat option"
  issuesFound :: "nat option"
  currentAgent :: "string option"
  agentsComplete :: "nat option"
  totalAgents :: "nat option"

definition noDetails :: progress_details where
  "noDetails = \<lparr> filesProcessed = None, totalFiles = None, chunksCreated = None, issuesFound = None,
                  currentAgent = None, agentsComplete = None, totalAgents = None \<rparr>"

text \<open>
  \<^verbatim>\<open>ProgressUpdate\<close> without its time stamp.  The progress value is a JavaScript number;
  it is a rational here.
\<close>

record progress_update =
  stage :: ProgressStage
  progress :: rat
  pmessage :: string
  details :: "progress_details option"
  partialResults :: "(issue list \<times> (string \<times> nat) list) option"
  perror :: "string option"

text \<open>
  A \<^verbatim>\<open>ProgressStream\<close> object is the list of the updates it has delivered to its
  subscribers, oldest first.  \<^verbatim>\<open>emit\<close> passes the update to every callback.
\<close>

type_synonym progress_stream = "progress_update list"

definition emit :: "progress_update \<Rightarrow> progress_stream \<Rightarrow> progress_stream" where
  "emit update s = s @ [update]"

definition stageEvent :: "ProgressStage \<Rightarrow> rat \<Rightarrow> string \<Rightarrow> progress_details option
    \<Rightarrow> progress_stream \<Rightarrow> progress_stream" where
  "stageEvent st p msg d s =
     emit \<lparr> stage = st, progress = p, pmessage = msg, details = d, partialResults = None,
            perror = None \<rparr> s"

definition completeEvent :: "string \<Rightarrow> (issue list \<times> (string \<times> nat) list) option
    \<Rightarrow> progress_stream \<Rightarrow> progress_stream" where
  "completeEvent msg pr s =
     emit \<lparr> stage = Complete, progress = 100, pmessage = msg, details = None, partialResults = pr,
            perror = None \<rparr> s"

text \<open>The table \<^verbatim>\<open>stageWeights\<close>: start and weight of each stage.\<close>

fun stageWeights :: "ProgressStage \<Rightarrow> rat \<times> rat" where
  "stageWeights Initializing = (0, 5)"
| "stageWeights Downloading = (5, 10)"
| "stageWeights Extracting = (15, 10)"
| "stageWeights Sampling = (25, 5)"
| "stageWeights Parsing = (30, 10)"
| "stageWeights Heuristics = (40, 5)"
| "stageWeights Analyzing = (45, 40)"
| "stageWeights Synthesizing = (85, 10)"
| "stageWeights Complete = (100, 0)"
| "stageWeights Error = (0, 0)"

definition calculateProgress :: "ProgressStage \<Rightarrow> rat \<Rightarrow> rat" where
  "calculateProgress st substageProgress =
     (let (start, weight) = stageWeights st
      in min 100 (start + (weight * substageProgress / 100)))"


section \<open>Provider selection (provider.ts)\<close>

datatype AIProviderName = Vercel | OpenRouter

fun providerName :: "AIProviderName \<Rightarrow> string" where
  "providerName Vercel = ''vercel''"
| "providerName OpenRouter = ''openrouter''"

text \<open>
  The module-level variables \<^verbatim>\<open>activeProvider\<close> and \<^verbatim>\<open>cachedOpenRouter\<close> (whether the
  client object has been created).
\<close>

record provider_module =
  activeProvider :: AIProviderName
  cachedOpenRouter :: bool

text \<open>The constants the module reads from the process environment when it is loaded.\<close>

record provider_config =
  DEFAULT_VERCEL_MODEL :: string
  DEFAULT_OPENROUTER_MODEL :: string
  DEFAULT_OPENROUTER_PROVIDER :: "string option"
  OPENROUTER_API_KEY :: "string option"

definition setAIProvider :: "AIProviderName \<Rightarrow> provider_module \<Rightarrow> provider_module" where
  "setAIProvider p m = m\<lparr> activeProvider := p \<rparr>"

definition getAIProvider :: "provider_module \<Rightarrow> AIProviderName" where
  "getAIProvider m = activeProvider m"

definition getDefaultModelForProvider :: "provider_config \<Rightarrow> AIProviderName \<Rightarrow> string" where
  "getDefaultModelForProvider cfg p =
     (if p = OpenRouter then DEFAULT_OPENROUTER_MODEL cfg else DEFAULT_VERCEL_MODEL cfg)"

definition getOpenRouterProvider :: "provider_config \<Rightarrow> string option" where
  "getOpenRouterProvider cfg = DEFAULT_OPENROUTER_PROVIDER cfg"

text \<open>
  A thrown JavaScript error, by the properties the pipeline reads: its message, its own
  \<^verbatim>\<open>text\<close> and the \<^verbatim>\<open>text\<close> of its \<^verbatim>\<open>cause\<close>.
\<close>

record js_error =
  err_message :: string
  err_text :: "string option"
  err_cause_text :: "string option"

definition plainError :: "string \<Rightarrow> js_error" where
  "plainError msg = \<lparr> err_message = msg, err_text = None, err_cause_text = None \<rparr>"

text \<open>
  \<^verbatim>\<open>ensureOpenRouter\<close> creates the client once and throws when no API key is configured.
  \<^verbatim>\<open>resolveModel\<close> is called without a model by every agent: it returns the identifier of
  the model to use.
\<close>

definition ensureOpenRouter :: "provider_config \<Rightarrow> provider_module \<Rightarrow> js_error + provider_module" where
  "ensureOpenRouter cfg m =
     (if cachedOpenRouter m then Inr m
      else if \<not> truthyStr (OPENROUTER_API_KEY cfg) then
        Inl (plainError
          ''OpenRouter provider selected but OPENROUTER_API_KEY is not configured on the server.'')
      else Inr (m\<lparr> cachedOpenRouter := True \<rparr>))"

definition resolveModel :: "provider_config \<Rightarrow> provider_module \<Rightarrow> js_error + (string \<times> provider_module)" where
  "resolveModel cfg m =
     (if activeProvider m = OpenRouter then
        (case ensureOpenRouter cfg m of
           Inl e \<Rightarrow> Inl e
         | Inr m' \<Rightarrow> Inr (DEFAULT_OPENROUTER_MODEL cfg, m'))
      else Inr (DEFAULT_VERCEL_MODEL cfg, m))"


section \<open>Chunker: \<^verbatim>\<open>buildCodeGraph\<close> (codegraph.ts)\<close>

datatype chunk_kind = KFunction | KClass | KModule | KComponent | KCode

record code_chunk =
  chunk_id :: string
  chunk_file :: string
  kind :: chunk_kind
  chunk_name :: "string option"
  chunk_text :: string
  startLine :: nat
  endLine :: nat

text \<open>
  The syntax tree comes from the ts-morph library.  What the chunker reads from a node is
  its kind, its name and its start and end positions.  The parser is a parameter: from the
  base name of a source file (which fixes the dialect) and its text to the descendants of
  the tree in traversal order.
\<close>

datatype syntax_kind = FunctionDeclaration | ClassDeclaration | VariableStatement | OtherSyntax

record ast_node =
  node_kind :: syntax_kind
  node_name :: "string option"
  node_start :: nat
  node_end :: nat

type_synonym parser = "string \<Rightarrow> string \<Rightarrow> ast_node list"

text \<open>
  \<^verbatim>\<open>getLineAndColumnAtPos(pos).line\<close>: one more than the number of line starts at or
  before \<open>pos\<close>.  A line starts after a line feed, after a carriage return and after the
  pair of both.
\<close>

fun lineStarts :: "nat \<Rightarrow> string \<Rightarrow> nat list" where
  "lineStarts i [] = []"
| "lineStarts i [c] = (if c = CHR 0x0D \<or> c = CHR 0x0A then [i + 1] else [])"
| "lineStarts i (c # d # cs) =
     (if c = CHR 0x0D \<and> d = CHR 0x0A then (i + 2) # lineStarts (i + 2) cs
      else if c = CHR 0x0D \<or> c = CHR 0x0A then (i + 1) # lineStarts (i + 1) (d # cs)
      else lineStarts (i + 1) (d # cs))"

definition lineAt :: "string \<Rightarrow> nat \<Rightarrow> nat" where
  "lineAt sourceText pos = 1 + length (filter (\<lambda>s. s \<le> pos) (lineStarts 0 sourceText))"

text \<open>
  The test \<^verbatim>\<open>/=\s*\(?\s*[\w]*\s*=>|function\s*\(/\<close> on the text of a variable statement.
  The character classes that follow one another are disjoint, so a greedy scan decides each
  alternative at a given start.
\<close>

definition isWord :: "char \<Rightarrow> bool" where
  "isWord c =
     (let n = (of_char c :: nat)
      in (48 \<le> n \<and> n \<le> 57) \<or> (65 \<le> n \<and> n \<le> 90) \<or> (97 \<le> n \<and> n \<le> 122) \<or> n = 95)"

definition arrowAt :: "string \<Rightarrow> bool" where
  "arrowAt s =
     (case s of
        [] \<Rightarrow> False
      | c # r \<Rightarrow>
          c = CHR ''='' \<and>
          (let r = dropWhile isSpace r;
               r = (case r of [] \<Rightarrow> [] | x # r' \<Rightarrow> if x = CHR ''('' then r' else x # r');
               r = dropWhile isSpace r;
               r = dropWhile isWord r;
               r = dropWhile isSpace r
           in prefix ''=>'' r))"

definition functionAt :: "string \<Rightarrow> bool" where
  "functionAt s = (prefix ''function'' s \<and> prefix ''('' (dropWhile isSpace (drop 8 s)))"

fun componentTest :: "string \<Rightarrow> bool" where
  "componentTest [] = False"
| "componentTest (c # cs) = (arrowAt (c # cs) \<or> functionAt (c # cs) \<or> componentTest cs)"

text \<open>
  The chunker reads \<^verbatim>\<open>path\<close>, \<^verbatim>\<open>content\<close> and \<^verbatim>\<open>isBinary\<close> of its input objects, which
  may carry more properties.
  Source files of the in-memory project: absolute path and text.  \<^verbatim>\<open>createSourceFile\<close>
  with \<^verbatim>\<open>overwrite\<close> replaces the text of a file already present under the same path.
  Paths are the relative, normalised paths of the extracted archive, rooted at \<^verbatim>\<open>/\<close>.
\<close>

record source_file =
  sf_path :: string
  sf_text :: string

definition getFilePath :: "string \<Rightarrow> string" where
  "getFilePath p = (case p of [] \<Rightarrow> ''/'' | c # cs \<Rightarrow> if c = CHR ''/'' then p else CHR ''/'' # p)"

definition getBaseName :: "string \<Rightarrow> string" where
  "getBaseName fp = rev (takeWhile (\<lambda>c. c \<noteq> CHR ''/'') (rev fp))"

fun createSourceFile :: "source_file list \<Rightarrow> string \<Rightarrow> string \<Rightarrow> source_file list" where
  "createSourceFile [] p t = [\<lparr> sf_path = p, sf_text = t \<rparr>]"
| "createSourceFile (sf # project) p t =
     (if sf_path sf = p then \<lparr> sf_path = p, sf_text = t \<rparr> # project
      else sf # createSourceFile project p t)"

text \<open>The test \<^verbatim>\<open>/\.(ts|tsx|js|jsx|mjs|cjs)$/\<close> on the path.\<close>

definition isSourcePath :: "string \<Rightarrow> bool" where
  "isSourcePath p =
     (\<exists>ext \<in> set [''.ts'', ''.tsx'', ''.js'', ''.jsx'', ''.mjs'', ''.cjs'']. endsWith p ext)"

definition loadProject :: "'a repo_file_scheme list \<Rightarrow> source_file list" where
  "loadProject files =
     foldl (\<lambda>project f.
              if isBinary f \<or> content f = None then project
              else if \<not> isSourcePath (path f) then project
              else createSourceFile project (getFilePath (path f)) (the (content f)))
       [] files"

text \<open>The local function \<^verbatim>\<open>add\<close>: the chunk it pushes.\<close>

definition addChunk :: "source_file \<Rightarrow> chunk_kind \<Rightarrow> string option \<Rightarrow> nat \<Rightarrow> nat \<Rightarrow> code_chunk" where
  "addChunk sf k name start end' =
     (let startLine = lineAt (sf_text sf) start;
          endLine = lineAt (sf_text sf) end'
      in \<lparr> chunk_id = getBaseName (sf_path sf) @ '':'' @ showNat startLine @ ''-'' @ showNat endLine,
           chunk_file = sf_path sf, kind = k, chunk_name = name,
           chunk_text = slice (sf_text sf) start end', startLine = startLine, endLine = endLine \<rparr>)"

text \<open>The callback of \<^verbatim>\<open>forEachDescendant\<close>: the chunks one node adds.\<close>

definition visitNode :: "source_file \<Rightarrow> ast_node \<Rightarrow> code_chunk list" where
  "visitNode sf node =
     (if node_kind node = FunctionDeclaration
        then [addChunk sf KFunction (node_name node) (node_start node) (node_end node)] else [])
     @ (if node_kind node = ClassDeclaration
        then [addChunk sf KClass (node_name node) (node_start node) (node_end node)] else [])
     @ (if node_kind node = VariableStatement then
          (let t = slice (sf_text sf) (node_start node) (node_end node)
           in if componentTest t \<and> length t > 80
              then [addChunk sf KComponent None (node_start node) (node_end node)] else [])
        else [])"

text \<open>One iteration of the loop over the source files, with the fallback chunk.\<close>

definition chunkFile :: "parser \<Rightarrow> code_chunk list \<Rightarrow> source_file \<Rightarrow> code_chunk list" where
  "chunkFile parse chunks sf =
     (let chunks = chunks @ concat (map (visitNode sf) (parse (getBaseName (sf_path sf)) (sf_text sf)))
      in if length (filter (\<lambda>c. chunk_file c = sf_path sf) chunks) = 0 then
           (let endLine = lineAt (sf_text sf) (length (sf_text sf))
            in chunks @ [\<lparr> chunk_id = getBaseName (sf_path sf) @ '':1-'' @ showNat endLine,
                            chunk_file = sf_path sf, kind = KCode, chunk_name = None,
                            chunk_text = sf_text sf, startLine = 1, endLine = endLine \<rparr>])
         else chunks)"

definition buildCodeGraph :: "parser \<Rightarrow> 'a repo_file_scheme list \<Rightarrow> code_chunk list" where
  "buildCodeGraph parse files = foldl (chunkFile parse) [] (loadProject files)"


section \<open>ScanCache: \<^verbatim>\<open>getCachedScan\<close> and \<^verbatim>\<open>cacheScanResult\<close> (cache.ts)\<close>

text \<open>
  The store is the database behind the Prisma client: the rows of the \<^verbatim>\<open>repo\<close> and
  \<^verbatim>\<open>scan\<close> tables (a scan row carries its issue rows).  Every operation sent to the store
  is appended to \<open>oplog\<close>; an operation throws when the store is not \<open>online\<close>.  Row
  identifiers come from the generator \<open>genId\<close>.  Times are milliseconds.
\<close>

record repo_row =
  repo_row_id :: string
  repo_owner :: string
  repo_name :: string
  repo_ref :: "string option"

record issue_row =
  ir_id :: string
  ir_type :: issue_type
  ir_severity :: severity
  ir_title :: string
  ir_description :: string
  ir_file :: "string option"
  ir_line :: "nat option"
  ir_recommendation :: "string option"
  ir_codemodName :: "string option"
  ir_codemodCommand :: "string option"

record scan_row =
  scan_row_id :: string
  scan_repoId :: string
  scan_commitSha :: string
  scan_startedAt :: string
  scan_finishedAt :: string
  scan_stats :: "(string \<times> nat) list"
  scan_provider :: string
  scan_model :: "string option"
  scan_createdAt :: int
  scan_issues :: "issue_row list"

datatype store_op = RepoFindUnique | ScanFindFirst | RepoUpsert | ScanCreate

record store =
  repos :: "repo_row list"
  scans :: "scan_row list"
  online :: bool
  nextId :: nat
  genId :: "nat \<Rightarrow> string"
  oplog :: "store_op list"

definition storeError :: js_error where
  "storeError = plainError ''database unavailable''"

definition repoFindUnique :: "store \<Rightarrow> string \<Rightarrow> string \<Rightarrow> (js_error + repo_row option) \<times> store" where
  "repoFindUnique db ow n =
     (let db = db\<lparr> oplog := oplog db @ [RepoFindUnique] \<rparr>
      in if \<not> online db then (Inl storeError, db)
         else (Inr (find (\<lambda>r. repo_owner r = ow \<and> repo_name r = n) (repos db)), db))"

definition scanFindFirst :: "store \<Rightarrow> string \<Rightarrow> string \<Rightarrow> string \<Rightarrow> string \<Rightarrow> int
    \<Rightarrow> (js_error + scan_row option) \<times> store" where
  "scanFindFirst db repoId sha prov mdl cutoff =
     (let db = db\<lparr> oplog := oplog db @ [ScanFindFirst] \<rparr>
      in if \<not> online db then (Inl storeError, db)
         else
           (let matching = filter (\<lambda>s. scan_repoId s = repoId \<and> scan_commitSha s = sha
                                      \<and> scan_provider s = prov \<and> scan_model s = Some mdl
                                      \<and> scan_createdAt s \<ge> cutoff) (scans db)
            in (Inr (case sort_key (\<lambda>s. - scan_createdAt s) matching of
                       [] \<Rightarrow> None | s # _ \<Rightarrow> Some s), db)))"

text \<open>\<^verbatim>\<open>upsert\<close>: an absent \<^verbatim>\<open>ref\<close> in the update leaves the column as it is.\<close>

definition repoUpsert :: "store \<Rightarrow> string \<Rightarrow> string \<Rightarrow> string option \<Rightarrow> (js_error + repo_row) \<times> store" where
  "repoUpsert db ow n r =
     (let db = db\<lparr> oplog := oplog db @ [RepoUpsert] \<rparr>
      in if \<not> online db then (Inl storeError, db)
         else
           (case find (\<lambda>row. repo_owner row = ow \<and> repo_name row = n) (repos db) of
              Some row \<Rightarrow>
                (let row' = (case r of None \<Rightarrow> row | Some v \<Rightarrow> row\<lparr> repo_ref := Some v \<rparr>)
                 in (Inr row',
                     db\<lparr> repos := map (\<lambda>x. if repo_row_id x = repo_row_id row then row' else x) (repos db) \<rparr>))
            | None \<Rightarrow>
                (let row = \<lparr> repo_row_id = genId db (nextId db), repo_owner = ow, repo_name = n,
                             repo_ref = r \<rparr>
                 in (Inr row, db\<lparr> repos := repos db @ [row], nextId := nextId db + 1 \<rparr>))))"

definition issueRow :: "string \<Rightarrow> issue \<Rightarrow> issue_row" where
  "issueRow rid i =
     \<lparr> ir_id = rid, ir_type = itype i, ir_severity = severity i, ir_title = title i,
       ir_description = description i, ir_file = issue_file i, ir_line = issue_line i,
       ir_recommendation = recommendation i,
       ir_codemodName = map_option cm_name (codemod i),
       ir_codemodCommand = map_option cm_command (codemod i) \<rparr>"

definition scanCreate :: "store \<Rightarrow> int \<Rightarrow> string \<Rightarrow> string \<Rightarrow> scan_result \<Rightarrow> (js_error + scan_row) \<times> store" where
  "scanCreate db now repoId sha result =
     (let db = db\<lparr> oplog := oplog db @ [ScanCreate] \<rparr>
      in if \<not> online db then (Inl storeError, db)
         else
           (let row = \<lparr> scan_row_id = genId db (nextId db), scan_repoId = repoId, scan_commitSha = sha,
                        scan_startedAt = startedAt result, scan_finishedAt = finishedAt result,
                        scan_stats = stats result, scan_provider = sr_provider result,
                        scan_model = Some (sr_model result), scan_createdAt = now,
                        scan_issues = map (\<lambda>(k, i). issueRow (genId db (nextId db + 1 + k)) i)
                                        (enumerate 0 (issues result)) \<rparr>
            in (Inr row, db\<lparr> scans := scans db @ [row],
                                nextId := nextId db + 1 + length (issues result) \<rparr>)))"

record cache_options =
  maxAge :: "int option"
  forceRefresh :: "bool option"

definition noOptions :: cache_options where
  "noOptions = \<lparr> maxAge = None, forceRefresh = None \<rparr>"

definition issueOfRow :: "issue_row \<Rightarrow> issue" where
  "issueOfRow r =
     \<lparr> issue_id = ir_id r, itype = ir_type r, severity = ir_severity r, title = ir_title r,
       description = ir_description r, issue_file = ir_file r, issue_line = ir_line r,
       codeFrame = None, recommendation = ir_recommendation r,
       codemod = (if truthyStr (ir_codemodName r) then
                    Some \<lparr> cm_name = the (ir_codemodName r),
                           cm_command = (case ir_codemodCommand r of None \<Rightarrow> '''' | Some c \<Rightarrow> c),
                           cm_description = (case ir_codemodCommand r of None \<Rightarrow> '''' | Some c \<Rightarrow> c),
                           cm_transform = None \<rparr>
                  else None),
       docs = None, issue_evidence = None \<rparr>"

text \<open>
  \<^verbatim>\<open>getCachedScan\<close>.  The revision is \<^verbatim>\<open>string | null | undefined\<close>; \<open>None\<close> stands for
  \<^verbatim>\<open>null\<close> and for \<^verbatim>\<open>undefined\<close>.  \<open>now\<close> is \<^verbatim>\<open>Date.now()\<close>.  The function returns the
  report or \<open>None\<close> for \<^verbatim>\<open>null\<close>, and the store after the call.  The \<^verbatim>\<open>catch\<close> block turns
  a throwing store operation into \<^verbatim>\<open>null\<close>.
\<close>

definition getCachedScan :: "store \<Rightarrow> int \<Rightarrow> string \<Rightarrow> string \<Rightarrow> string option \<Rightarrow> string \<Rightarrow> string
    \<Rightarrow> cache_options \<Rightarrow> scan_result option \<times> store" where
  "getCachedScan db now ow rp commitSha prov mdl options =
     (if \<not> truthyStr commitSha \<or> forceRefresh options = Some True then (None, db)
      else
        (case repoFindUnique db ow rp of
           (Inl err, db) \<Rightarrow> (None, db)
         | (Inr None, db) \<Rightarrow> (None, db)
         | (Inr (Some repoRecord), db) \<Rightarrow>
             (let maxAge = (case maxAge options of None \<Rightarrow> 7 * 24 * 60 * 60 * 1000 | Some a \<Rightarrow> a);
                  cutoffDate = now - maxAge
              in case scanFindFirst db (repo_row_id repoRecord) (the commitSha) prov mdl cutoffDate of
                   (Inl err, db) \<Rightarrow> (None, db)
                 | (Inr None, db) \<Rightarrow> (None, db)
                 | (Inr (Some scan), db) \<Rightarrow>
                     (Some \<lparr> sr_repo = \<lparr> owner = repo_owner repoRecord, repo = repo_name repoRecord,
                                         ref = repo_ref repoRecord \<rparr>,
                             startedAt = scan_startedAt scan,
                             finishedAt = scan_finishedAt scan,
                             stats = scan_stats scan,
                             issues = map issueOfRow (scan_issues scan),
                             sr_provider = scan_provider scan,
                             sr_model = (case scan_model scan of None \<Rightarrow> ''unknown'' | Some m \<Rightarrow> m),
                             openrouterProvider = None,
                             markdown = '''',
                             warnings = Some [] \<rparr>, db))))"

text \<open>\<^verbatim>\<open>cacheScanResult\<close>: the store after the call.  Errors of the store are swallowed.\<close>

definition cacheScanResult :: "store \<Rightarrow> int \<Rightarrow> scan_result \<Rightarrow> string option \<Rightarrow> store" where
  "cacheScanResult db now result commitSha =
     (if \<not> truthyStr commitSha then db
      else
        (case repoUpsert db (owner (sr_repo result)) (repo (sr_repo result)) (ref (sr_repo result)) of
           (Inl err, db) \<Rightarrow> db
         | (Inr repoRecord, db) \<Rightarrow>
             snd (scanCreate db now (repo_row_id repoRecord) (the commitSha) result)))"


section \<open>Coordinator: \<^verbatim>\<open>runFullAudit\<close> (coordinator.ts)\<close>

subsection \<open>Analyzer outputs\<close>

text \<open>
  An element of an analyzer's output, by the optional properties the coordinator reads from
  it, at the types to which the coordinator casts it.
\<close>

record item =
  it_severity :: "string option"
  it_title :: "string option"
  it_description :: "string option"
  it_recommendation :: "string option"
  it_docs :: "doc_ref list option"
  it_issueTitle :: "string option"
  it_codemod :: "codemod_plan option"

text \<open>
  A raw output of type \<^verbatim>\<open>unknown\<close>: an array, a string, or any other value, of which only
  the result of \<^verbatim>\<open>typeof\<close> is read.
\<close>

datatype raw = RArray "item list" | RString string | ROther string

fun typeofRaw :: "raw \<Rightarrow> string" where
  "typeofRaw (RArray xs) = ''object''"
| "typeofRaw (RString s) = ''string''"
| "typeofRaw (ROther t) = t"

record snippet =
  snip_title :: string
  snip_url :: string
  snip_text :: string

text \<open>The context with which an agent function is invoked.\<close>

datatype agent_request =
  UiuxRequest string "string list"
  | BackendRequest string "string list"
  | DbRequest string string
  | SecurityRequest string "string list"
  | PerfRequest string "string list"
  | LintRequest "(string \<times> string) list"
  | CodemodRequest "issue list"

text \<open>
  What lies outside the coordinator.  \<open>inference\<close> is the model call behind an agent
  function: from the active provider, the resolved model and the agent's context to the
  structured result or a thrown error.  \<open>micromatch\<close> is the glob matcher of the sampler.  \<open>jsonParse\<close> is \<^verbatim>\<open>JSON.parse\<close>: the parsed value or
  the message of the syntax error.  \<open>mathRandom\<close> gives the suffix that the \<open>n\<close>-th use of
  \<^verbatim>\<open>Math.random\<close> produces.  \<open>runHeuristics\<close> is the rule battery of heuristics.ts, whose
  hits are taken as given.
\<close>

record env =
  micromatch :: matcher
  runHeuristics :: "repo_file list \<Rightarrow> rule_hit list"
  parseSource :: parser
  getContext7Docs :: "string \<Rightarrow> js_error + snippet list"
  inference :: "AIProviderName \<Rightarrow> string \<Rightarrow> agent_request \<Rightarrow> js_error + raw"
  jsonParse :: "string \<Rightarrow> string + raw"
  mathRandom :: "nat \<Rightarrow> string"
  clockStart :: string
  clockFinish :: string
  toLocaleString :: "string \<Rightarrow> string"
  config :: provider_config

text \<open>
  The mutable state a run works on: the provider module, the progress stream of the caller,
  the agent functions invoked so far with their contexts, and the number of random draws.
\<close>

record world =
  pm :: provider_module
  stream :: progress_stream
  calls :: "agent_request list"
  draws :: nat

record audit_input =
  in_repo :: repo_ref
  in_files :: "repo_file list"
  in_prismaSchema :: "string option"
  in_provider :: "AIProviderName option"
  in_progressStream :: bool

text \<open>\<^verbatim>\<open>progress?.stage(...)\<close>: nothing happens without a stream.\<close>

definition stageIf :: "bool \<Rightarrow> ProgressStage \<Rightarrow> rat \<Rightarrow> string \<Rightarrow> progress_details option \<Rightarrow> world \<Rightarrow> world" where
  "stageIf present st p msg d w = (if present then w\<lparr> stream := stageEvent st p msg d (stream w) \<rparr> else w)"

text \<open>
  An agent function: it calls \<^verbatim>\<open>ai.generateObject\<close>, which resolves the model from the
  provider module and then runs the inference call.
\<close>

definition callAgent :: "env \<Rightarrow> agent_request \<Rightarrow> world \<Rightarrow> (js_error + raw) \<times> world" where
  "callAgent env req w =
     (let w = w\<lparr> calls := calls w @ [req] \<rparr>
      in case resolveModel (config env) (pm w) of
           Inl e \<Rightarrow> (Inl e, w)
         | Inr (model, m) \<Rightarrow> (inference env (activeProvider m) model req, w\<lparr> pm := m \<rparr>))"

subsection \<open>The agent wrapper\<close>

text \<open>\<^verbatim>\<open>err?.cause?.text || err?.text\<close>.\<close>

definition errorText :: "js_error \<Rightarrow> string option" where
  "errorText e =
     (if truthyStr (err_cause_text e) then err_cause_text e
      else if truthyStr (err_text e) then err_text e
      else None)"

text \<open>
  The two replacements on a text that starts with a code fence: \<^verbatim>\<open>/^```(?:json)?\n?/\<close>
  and \<^verbatim>\<open>/\n?```$/\<close>.
\<close>

definition stripFenceStart :: "string \<Rightarrow> string" where
  "stripFenceStart s =
     (if prefix ''```'' s then
        (let r = drop 3 s;
             r = (if prefix ''json'' r then drop 4 r else r);
             r = (if prefix [CHR 0x0A] r then drop 1 r else r)
         in r)
      else s)"

definition stripFenceEnd :: "string \<Rightarrow> string" where
  "stripFenceEnd s =
     (if suffix (CHR 0x0A # ''```'') s then take (length s - 4) s
      else if suffix ''```'' s then take (length s - 3) s
      else s)"

definition unwrapMarkdown :: "string \<Rightarrow> string" where
  "unwrapMarkdown t =
     (let cleaned = trim t
      in if prefix ''```'' cleaned then trim (stripFenceEnd (stripFenceStart cleaned)) else cleaned)"

text \<open>
  \<^verbatim>\<open>agentWrapper\<close> around one agent function.  The counter \<^verbatim>\<open>completedAgents\<close> is
  threaded through.  The result is \<open>Inr\<close> when the wrapper's promise resolves and \<open>Inl\<close>
  when it rejects (the final \<^verbatim>\<open>throw err\<close>).
\<close>

definition agentWrapper :: "env \<Rightarrow> bool \<Rightarrow> string \<Rightarrow> agent_request \<Rightarrow> nat \<Rightarrow> world
    \<Rightarrow> (js_error + raw) \<times> nat \<times> world" where
  "agentWrapper env present name req completedAgents w =
     (case callAgent env req w of
        (Inr result, w) \<Rightarrow>
          (let completedAgents = completedAgents + 1;
               w = stageIf present Analyzing
                     (calculateProgress Analyzing ((of_nat completedAgents / 6) * 100))
                     (''Completed '' @ name @ '' agent ('' @ showNat completedAgents @ ''/6)'')
                     (Some (noDetails\<lparr> totalAgents := Some 6, agentsComplete := Some completedAgents,
                                        currentAgent := Some name \<rparr>)) w
           in (Inr result, completedAgents, w))
      | (Inl err, w) \<Rightarrow>
          (let completedAgents = completedAgents + 1
           in case errorText err of
                Some t \<Rightarrow>
                  (case jsonParse env (unwrapMarkdown t) of
                     Inr parsed \<Rightarrow> (Inr parsed, completedAgents - 1, w)
                   | Inl parseErr \<Rightarrow> (Inl err, completedAgents, w))
              | None \<Rightarrow> (Inl err, completedAgents, w)))"

text \<open>
  An error is recoverable by the wrapper when it carries a text that parses after the
  unwrapping; the wrapper then resolves with the parsed value instead of throwing.
\<close>

definition recoverable :: "env \<Rightarrow> js_error \<Rightarrow> bool" where
  "recoverable env e =
     (case errorText e of None \<Rightarrow> False | Some t \<Rightarrow> \<not> isl (jsonParse env (unwrapMarkdown t)))"

text \<open>
  The six wrapped calls handed to \<^verbatim>\<open>Promise.all\<close>.  The limiter starts them in array
  order, and they are settled here in that order.  \<^verbatim>\<open>Promise.all\<close> resolves with all six
  results when every promise resolves and rejects with the error of a rejected promise
  otherwise.
\<close>

fun runAnalyzers :: "env \<Rightarrow> bool \<Rightarrow> (string \<times> agent_request) list \<Rightarrow> nat \<Rightarrow> world
    \<Rightarrow> (js_error + raw) list \<times> nat \<times> world" where
  "runAnalyzers env present [] completedAgents w = ([], completedAgents, w)"
| "runAnalyzers env present ((name, req) # rest) completedAgents w =
     (let (r, completedAgents, w) = agentWrapper env present name req completedAgents w;
          (rs, completedAgents, w) = runAnalyzers env present rest completedAgents w
      in (r # rs, completedAgents, w))"

fun promiseAll :: "(js_error + 'a) list \<Rightarrow> js_error + 'a list" where
  "promiseAll [] = Inr []"
| "promiseAll (Inl e # rs) = Inl e"
| "promiseAll (Inr x # rs) = (case promiseAll rs of Inl e \<Rightarrow> Inl e | Inr xs \<Rightarrow> Inr (x # xs))"

subsection \<open>The output normalizer\<close>

text \<open>
  \<^verbatim>\<open>normalizeAgentOutput\<close>, with the \<^verbatim>\<open>warnings\<close> array it appends to passed in and
  returned.  \<open>attempts\<close> is the list of labelled texts; \<open>tryAttempts\<close> is the loop over it.
\<close>

definition attempts :: "string \<Rightarrow> (string \<times> string) list" where
  "attempts trimmed =
     [(''raw'', trimmed)]
     @ (case (indexOf trimmed CHR ''['', lastIndexOf trimmed CHR '']'') of
          (Some start, Some end') \<Rightarrow>
            if end' > start then
              (let sl = slice trimmed start (end' + 1)
               in if sl \<noteq> trimmed then [(''array-slice'', sl)] else [])
            else []
        | _ \<Rightarrow> [])"

fun tryAttempts :: "(string \<Rightarrow> string + raw) \<Rightarrow> string \<Rightarrow> (string \<times> string) list \<Rightarrow> string option
    \<Rightarrow> string list \<Rightarrow> item list \<times> string list" where
  "tryAttempts parse agent [] lastError ws =
     ([], ws @ [agent @ '': failed to parse JSON ('' @
                  (case lastError of None \<Rightarrow> ''unknown error'' | Some m \<Rightarrow> m) @ '')''])"
| "tryAttempts parse agent ((label, t) # rest) lastError ws =
     (case parse t of
        Inr (RArray parsed) \<Rightarrow>
          (parsed, if label \<noteq> ''raw'' then ws @ [agent @ '': parsed after '' @ label @ '' extraction'']
                   else ws)
      | Inr parsed \<Rightarrow>
          ([], ws @ [agent @ '': parsed JSON was not an array (received '' @ typeofRaw parsed @ '')''])
      | Inl msg \<Rightarrow> tryAttempts parse agent rest (Some msg) ws)"

definition normalizeAgentOutput :: "(string \<Rightarrow> string + raw) \<Rightarrow> string \<Rightarrow> raw \<Rightarrow> string list
    \<Rightarrow> item list \<times> string list" where
  "normalizeAgentOutput parse agent r ws =
     (case r of
        RArray xs \<Rightarrow> (xs, ws)
      | ROther t \<Rightarrow> ([], ws @ [agent @ '': empty response from model''])
      | RString s \<Rightarrow>
          if s = [] \<or> length (trim s) = 0 then ([], ws @ [agent @ '': empty response from model''])
          else tryAttempts parse agent (attempts (trim s)) None ws)"


subsection \<open>Merging the findings\<close>

text \<open>The severity of a finding: \<^verbatim>\<open>it.severity ?? 'medium'\<close>, then the check of the five names.\<close>

definition severityOf :: "string option \<Rightarrow> severity" where
  "severityOf s =
     (let sev = (case s of None \<Rightarrow> ''medium'' | Some v \<Rightarrow> v)
      in if sev = ''critical'' then Critical
         else if sev = ''high'' then High
         else if sev = ''medium'' then Medium
         else if sev = ''low'' then Low
         else if sev = ''info'' then Info
         else Medium)"

definition issueOfItem :: "issue_type \<Rightarrow> string \<Rightarrow> item \<Rightarrow> issue" where
  "issueOfItem t suffix' it =
     \<lparr> issue_id = typeName t @ ''-'' @ suffix', itype = t, severity = severityOf (it_severity it),
       title = (case it_title it of None \<Rightarrow> ''Issue'' | Some v \<Rightarrow> v),
       description = (case it_description it of None \<Rightarrow> '''' | Some v \<Rightarrow> v),
       issue_file = None, issue_line = None, codeFrame = None,
       recommendation = it_recommendation it, codemod = None, docs = it_docs it,
       issue_evidence = None \<rparr>"

text \<open>
  The loop over the six pairs of type and raw output: normalize, then push one issue per
  element.  The accumulator is the issue list, the warnings and the number of random draws.
\<close>

fun mergeFindings :: "env \<Rightarrow> (issue_type \<times> raw) list \<Rightarrow> issue list \<Rightarrow> string list \<Rightarrow> nat
    \<Rightarrow> issue list \<times> string list \<times> nat" where
  "mergeFindings env [] acc ws d = (acc, ws, d)"
| "mergeFindings env ((t, r) # rest) acc ws d =
     (let (arr, ws) = normalizeAgentOutput (jsonParse env) (typeName t) r ws;
          acc = acc @ map (\<lambda>(k, it). issueOfItem t (mathRandom env (d + k)) it) (enumerate 0 arr)
      in mergeFindings env rest acc ws (d + length arr))"

text \<open>The optional documentation snippets; any error ends the collection silently.\<close>

fun fetchDocs :: "env \<Rightarrow> string list \<Rightarrow> snippet list \<Rightarrow> snippet list" where
  "fetchDocs env [] docsSnippets = docsSnippets"
| "fetchDocs env (lib # libs) docsSnippets =
     (case getContext7Docs env lib of
        Inl e \<Rightarrow> docsSnippets
      | Inr list \<Rightarrow> fetchDocs env libs (docsSnippets @ take 5 list))"

definition attachDocs :: "snippet list \<Rightarrow> issue list \<Rightarrow> issue list" where
  "attachDocs docsSnippets is =
     (if length docsSnippets > 0 then
        map (\<lambda>i. i\<lparr> docs := Some ((case docs i of None \<Rightarrow> [] | Some ds \<Rightarrow> ds)
                      @ map (\<lambda>d. \<lparr> doc_title = snip_title d, doc_url = snip_url d \<rparr>)
                          (take 3 docsSnippets)) \<rparr>) is
      else is)"

text \<open>\<^verbatim>\<open>findIndex\<close> and the loop that attaches the planned codemods by exact title.\<close>

fun findIndex :: "('a \<Rightarrow> bool) \<Rightarrow> 'a list \<Rightarrow> nat option" where
  "findIndex P [] = None"
| "findIndex P (x # xs) = (if P x then Some 0 else map_option Suc (findIndex P xs))"

fun applyCodemods :: "item list \<Rightarrow> issue list \<Rightarrow> issue list" where
  "applyCodemods [] is = is"
| "applyCodemods (cm # cms) is =
     (if truthyStr (it_issueTitle cm) \<and> it_codemod cm \<noteq> None then
        (case findIndex (\<lambda>i. title i = the (it_issueTitle cm)) is of
           Some idx \<Rightarrow> applyCodemods cms (is[idx := (is ! idx)\<lparr> codemod := it_codemod cm \<rparr>])
         | None \<Rightarrow> applyCodemods cms is)
      else applyCodemods cms is)"

subsection \<open>The run\<close>

definition analyzerRequests :: "string \<Rightarrow> string list \<Rightarrow> string option \<Rightarrow> rule_hit list
    \<Rightarrow> code_chunk list \<Rightarrow> (string \<times> agent_request) list" where
  "analyzerRequests summary sampleTexts prismaSchema heuristics sampleChunks =
     [(''UI/UX'', UiuxRequest summary sampleTexts),
      (''Backend'', BackendRequest summary sampleTexts),
      (''Database'', DbRequest summary (case prismaSchema of None \<Rightarrow> '''' | Some s \<Rightarrow> s)),
      (''Security'', SecurityRequest summary
         (map (\<lambda>h. rule h @ '' '' @ hit_file h @ '':'' @ showNat (hit_line h)) heuristics)),
      (''Performance'', PerfRequest summary sampleTexts),
      (''Lint'', LintRequest (map (\<lambda>c. (chunk_file c, chunk_text c)) sampleChunks))]"

text \<open>The names under which the six analyzers are wrapped, and the agent a context belongs to.\<close>

definition analyzerNames :: "string list" where
  "analyzerNames = [''UI/UX'', ''Backend'', ''Database'', ''Security'', ''Performance'', ''Lint'']"

fun requestName :: "agent_request \<Rightarrow> string" where
  "requestName (UiuxRequest s xs) = ''UI/UX''"
| "requestName (BackendRequest s xs) = ''Backend''"
| "requestName (DbRequest s sch) = ''Database''"
| "requestName (SecurityRequest s hs) = ''Security''"
| "requestName (PerfRequest s xs) = ''Performance''"
| "requestName (LintRequest l) = ''Lint''"
| "requestName (CodemodRequest is) = ''Codemod''"


text \<open>
  The part of the run after \<^verbatim>\<open>Promise.all\<close> has resolved with the six raw outputs.  The
  remediation planner \<^verbatim>\<open>codemodAgentPlan\<close> is the agent call with the issue list as its
  context; an error it throws leaves the function.
\<close>

definition synthesize :: "env \<Rightarrow> audit_input \<Rightarrow> AIProviderName \<Rightarrow> rule_hit list \<Rightarrow> nat
    \<Rightarrow> code_chunk list \<Rightarrow> snippet list \<Rightarrow> raw list \<Rightarrow> world \<Rightarrow> (js_error + scan_result) \<times> world" where
  "synthesize env input targetProvider heuristics sampled chunks docsSnippets outs w =
     (let progress = in_progressStream input;
          w = stageIf progress Synthesizing (calculateProgress Synthesizing 0)
                ''Processing agent results...'' None w;
          (merged, ws, d) = mergeFindings env (zip [UX, Backend, DB, Security, Performance, Lint] outs)
                              [] [] (draws w);
          is = attachDocs docsSnippets merged;
          w = w\<lparr> draws := d \<rparr>
      in case callAgent env (CodemodRequest is) w of
           (Inl err, w) \<Rightarrow> (Inl err, w)
         | (Inr codemodsJson, w) \<Rightarrow>
             (let (codemods, ws) = normalizeAgentOutput (jsonParse env) ''codemod'' codemodsJson ws;
                  is = applyCodemods codemods is;
                  (is, w) =
                    (if length ws > 0 then
                       (is @ [\<lparr> issue_id = ''general-'' @ mathRandom env (draws w), itype = General,
                                 severity = Low, title = ''Agent response warnings'',
                                 description = joinWith ''; '' ws,
                                 issue_file = None, issue_line = None, codeFrame = None,
                                 recommendation =
                                   Some ''Review model outputs or rerun the audit after the provider stabilises.'',
                                 codemod = None, docs = None, issue_evidence = None \<rparr>],
                        w\<lparr> draws := draws w + 1 \<rparr>)
                     else (is, w));
                  w = stageIf progress Synthesizing (calculateProgress Synthesizing 100)
                        (''Found '' @ showNat (length is) @ '' issues'')
                        (Some (noDetails\<lparr> issuesFound := Some (length is) \<rparr>)) w;
                  result = \<lparr> sr_repo = in_repo input,
                             startedAt = clockStart env, finishedAt = clockFinish env,
                             stats = [(''files'', length (in_files input)), (''chunks'', length chunks),
                                      (''heuristics'', length heuristics), (''agents'', 6),
                                      (''sampledFiles'', sampled)],
                             issues = is,
                             sr_provider = providerName targetProvider,
                             sr_model = getDefaultModelForProvider (config env) targetProvider,
                             openrouterProvider =
                               (if targetProvider = OpenRouter then getOpenRouterProvider (config env)
                                else None),
                             markdown = [],
                             warnings = Some ws \<rparr>;
                  result = result\<lparr> markdown := buildMarkdownReport (toLocaleString env) result \<rparr>;
                  w = (if progress
                       then w\<lparr> stream := completeEvent ''Audit complete!''
                                            (Some (take 10 is, stats result)) (stream w) \<rparr>
                       else w)
              in (Inr result, w)))"

text \<open>
  The \<^verbatim>\<open>try\<close> block up to the fan-out: heuristics, sampling, chunking, documentation
  snippets, with their progress events.  It yields the rule hits, the number of sampled
  files, the chunks, the snippets and the six wrapped requests.
\<close>

definition prepare :: "env \<Rightarrow> audit_input \<Rightarrow> AIProviderName \<Rightarrow> world
    \<Rightarrow> (rule_hit list \<times> nat \<times> code_chunk list \<times> snippet list \<times> (string \<times> agent_request) list) \<times> world" where
  "prepare env input targetProvider w =
     (let progress = in_progressStream input;
          files = in_files input;
          w = stageIf progress Initializing 5 ''Starting audit...''
                (Some (noDetails\<lparr> totalFiles := Some (length files) \<rparr>)) w;
          w = stageIf progress Heuristics (calculateProgress Heuristics 0)
                ''Running security heuristics...'' None w;
          heuristics = runHeuristics env files;
          w = stageIf progress Heuristics (calculateProgress Heuristics 100)
                (''Found '' @ showNat (length heuristics) @ '' heuristic matches'') None w;
          w = stageIf progress Sampling (calculateProgress Sampling 0)
                ''Selecting high-priority files...'' None w;
          samplingLimit = (if length files \<le> 900 then length files else 900);
          sampledFiles = intelligentSampling (micromatch env) files heuristics samplingLimit;
          w = stageIf progress Sampling (calculateProgress Sampling 100)
                (''Selected '' @ showNat (length sampledFiles) @ '' files for analysis'') None w;
          w = stageIf progress Parsing (calculateProgress Parsing 0)
                ''Parsing code with ts-morph...'' None w;
          chunks = buildCodeGraph (parseSource env) sampledFiles;
          sampleTexts = map (\<lambda>c. ''// '' @ chunk_file c @ '':'' @ showNat (startLine c) @ ''-''
                                   @ showNat (endLine c) @ [CHR 0x0A] @ chunk_text c) chunks;
          w = stageIf progress Parsing (calculateProgress Parsing 100)
                (''Created '' @ showNat (length chunks) @ '' code chunks'')
                (Some (noDetails\<lparr> chunksCreated := Some (length chunks) \<rparr>)) w;
          libs = [''Next.js'', ''Vercel AI SDK'',
                  if targetProvider = OpenRouter then ''OpenRouter API'' else ''OpenAI Apps SDK''];
          docsSnippets = fetchDocs env libs [];
          summary = ''Files: '' @ showNat (length files) @ '', Chunks:'' @ showNat (length chunks)
                    @ '', Heuristics:'' @ showNat (length heuristics);
          w = stageIf progress Analyzing (calculateProgress Analyzing 0)
                ''Running AI agents in parallel...''
                (Some (noDetails\<lparr> totalAgents := Some 6, agentsComplete := Some 0 \<rparr>)) w
      in ((heuristics, length sampledFiles, chunks, docsSnippets,
           analyzerRequests summary sampleTexts (in_prismaSchema input) heuristics chunks), w))"

text \<open>The body of the \<^verbatim>\<open>try\<close> block.\<close>

definition auditBody :: "env \<Rightarrow> audit_input \<Rightarrow> AIProviderName \<Rightarrow> world \<Rightarrow> (js_error + scan_result) \<times> world" where
  "auditBody env input targetProvider w =
     (let ((heuristics, sampled, chunks, docsSnippets, requests), w) = prepare env input targetProvider w;
          (results, completedAgents, w) =
             runAnalyzers env (in_progressStream input) requests 0 w
      in case promiseAll results of
           Inl err \<Rightarrow> (Inl err, w)
         | Inr outs \<Rightarrow> synthesize env input targetProvider heuristics sampled chunks docsSnippets outs w)"

text \<open>
  \<^verbatim>\<open>runFullAudit\<close>: the provider is read, switched, and put back by the \<^verbatim>\<open>finally\<close> block
  on both ways out.  \<open>Inl\<close> is the error the returned promise rejects with.
\<close>

definition runFullAudit :: "env \<Rightarrow> audit_input \<Rightarrow> world \<Rightarrow> (js_error + scan_result) \<times> world" where
  "runFullAudit env input w =
     (let targetProvider = (case in_provider input of None \<Rightarrow> Vercel | Some p \<Rightarrow> p);
          prevProvider = getAIProvider (pm w);
          w = w\<lparr> pm := setAIProvider targetProvider (pm w) \<rparr>;
          (res, w) = auditBody env input targetProvider w
      in (res, w\<lparr> pm := setAIProvider prevProvider (pm w) \<rparr>))"


section \<open>Example inputs\<close>

text \<open>
  Two text files whose paths match none of the sampler's globs, each flagged by one rule
  hit, and a matcher that agrees with micromatch on these two paths.
\<close>

definition noMatch :: matcher where
  "noMatch p patterns nocase = False"

definition fileA :: repo_file where
  "fileA = \<lparr> path = ''a.md'', content = Some ''eval(x)'', isBinary = False \<rparr>"

definition fileB :: repo_file where
  "fileB = \<lparr> path = ''b.md'', content = Some ''eval(y)'', isBinary = False \<rparr>"

definition hitA :: rule_hit where
  "hitA = \<lparr> rule = ''no-eval'', hit_file = ''a.md'', hit_line = 1,
            message = ''Use of eval is dangerous and should be removed.'', evidence = None \<rparr>"

definition hitB :: rule_hit where
  "hitB = \<lparr> rule = ''no-eval'', hit_file = ''b.md'', hit_line = 1,
            message = ''Use of eval is dangerous and should be removed.'', evidence = None \<rparr>"

text \<open>
  An element without any of the properties the coordinator reads, and a parser that agrees
  with \<^verbatim>\<open>JSON.parse\<close> on the texts of the examples below: three texts parse, every other
  text used is a syntax error.
\<close>

definition emptyItem :: item where
  "emptyItem = \<lparr> it_severity = None, it_title = None, it_description = None,
                  it_recommendation = None, it_docs = None, it_issueTitle = None,
                  it_codemod = None \<rparr>"

definition exampleParse :: "string \<Rightarrow> string + raw" where
  "exampleParse s =
     (if s = ''[{}]'' then Inr (RArray [emptyItem])
      else if s = ''[]'' then Inr (RArray [])
      else if s = ''{}'' then Inr (ROther ''object'')
      else Inl ''Unexpected token'')"

text \<open>Three security findings with the severities low, critical and medium, in this order.\<close>

definition exampleIssue :: "string \<Rightarrow> issue_type \<Rightarrow> severity \<Rightarrow> issue" where
  "exampleIssue name t s =
     \<lparr> issue_id = typeName t @ ''-'' @ name, itype = t, severity = s, title = name,
       description = '''', issue_file = None, issue_line = None, codeFrame = None,
       recommendation = None, codemod = None, docs = None, issue_evidence = None \<rparr>"

definition threeSecurityIssues :: "issue list" where
  "threeSecurityIssues =
     [exampleIssue ''first'' Security Low, exampleIssue ''second'' Security Critical,
      exampleIssue ''third'' Security Medium]"

text \<open>
  A run on the two flagged files.  No documentation service is configured, the parser is
  not reached (neither file is a source file), every analyzer returns one finding without
  properties and the planner returns no codemod.  In the second environment the backend
  analyzer always raises an error that carries no text.
\<close>

definition exampleInference :: "AIProviderName \<Rightarrow> string \<Rightarrow> agent_request \<Rightarrow> js_error + raw" where
  "exampleInference p m req =
     (case req of CodemodRequest is \<Rightarrow> Inr (RArray []) | _ \<Rightarrow> Inr (RArray [emptyItem]))"

definition failingInference :: "AIProviderName \<Rightarrow> string \<Rightarrow> agent_request \<Rightarrow> js_error + raw" where
  "failingInference p m req =
     (case req of
        BackendRequest s xs \<Rightarrow> Inl (plainError ''rate limit exceeded'')
      | CodemodRequest is \<Rightarrow> Inr (RArray [])
      | _ \<Rightarrow> Inr (RArray [emptyItem]))"

definition exampleEnv :: env where
  "exampleEnv =
     \<lparr> micromatch = noMatch,
       runHeuristics = (\<lambda>files. [hitA, hitB]),
       parseSource = (\<lambda>base t. []),
       getContext7Docs = (\<lambda>lib. Inr []),
       inference = exampleInference,
       jsonParse = exampleParse,
       mathRandom = (\<lambda>n. ''r'' @ showNat n),
       clockStart = ''2025-01-01T00:00:00.000Z'',
       clockFinish = ''2025-01-01T00:01:00.000Z'',
       toLocaleString = (\<lambda>s. s),
       config = \<lparr> DEFAULT_VERCEL_MODEL = ''moonshotai/kimi-k2-0905'',
                  DEFAULT_OPENROUTER_MODEL = ''z-ai/glm-4.6'',
                  DEFAULT_OPENROUTER_PROVIDER = None,
                  OPENROUTER_API_KEY = None \<rparr> \<rparr>"

definition failingEnv :: env where
  "failingEnv = exampleEnv\<lparr> inference := failingInference \<rparr>"

definition exampleInput :: audit_input where
  "exampleInput =
     \<lparr> in_repo = \<lparr> owner = ''acme'', repo = ''site'', ref = None \<rparr>,
       in_files = [fileA, fileB], in_prismaSchema = None, in_provider = None,
       in_progressStream = True \<rparr>"

definition exampleWorld :: world where
  "exampleWorld =
     \<lparr> pm = \<lparr> activeProvider = OpenRouter, cachedOpenRouter = False \<rparr>,
       stream = [], calls = [], draws = 0 \<rparr>"

text \<open>
  Two source files in different directories with the same base name and the same content,
  and a parser that finds no declaration.
\<close>

definition utilA :: repo_file where
  "utilA = \<lparr> path = ''app/util.ts'', content = Some ''export const n = 1;'', isBinary = False \<rparr>"

definition utilB :: repo_file where
  "utilB = \<lparr> path = ''lib/util.ts'', content = Some ''export const n = 1;'', isBinary = False \<rparr>"

definition noDeclarations :: parser where
  "noDeclarations base t = []"

text \<open>An empty store that is online.\<close>

definition emptyStore :: store where
  "emptyStore = \<lparr> repos = [], scans = [], online = True, nextId = 0,
                   genId = (\<lambda>n. ''id'' @ showNat n), oplog = [] \<rparr>"

text \<open>A report with the three security findings, and the store after it has been cached.\<close>

definition exampleReport :: scan_result where
  "exampleReport =
     \<lparr> sr_repo = \<lparr> owner = ''acme'', repo = ''site'', ref = None \<rparr>,
       startedAt = ''2025-01-01T00:00:00.000Z'', finishedAt = ''2025-01-01T00:01:00.000Z'',
       stats = [(''files'', 2), (''chunks'', 0), (''heuristics'', 2), (''agents'', 6),
                (''sampledFiles'', 2)],
       issues = threeSecurityIssues, sr_provider = ''vercel'', sr_model = ''moonshotai/kimi-k2-0905'',
       openrouterProvider = None, markdown = [], warnings = Some [] \<rparr>"

definition warmStore :: store where
  "warmStore = cacheScanResult emptyStore 1000 exampleReport (Some ''abc123'')"


section \<open>Proof invariants\<close>


text \<open>
  What every step of a run preserves of the provider module: the active provider, and the
  whole module unless the active provider is OpenRouter (whose client is created lazily).
\<close>

definition keepsSelection :: "provider_module \<Rightarrow> provider_module \<Rightarrow> bool" where
  "keepsSelection m m' \<longleftrightarrow>
     activeProvider m' = activeProvider m \<and> (activeProvider m \<noteq> OpenRouter \<longrightarrow> m' = m)"

text \<open>The format of a chunk id: base name of the file, start line, end line.\<close>

definition idOk :: "code_chunk \<Rightarrow> bool" where
  "idOk c \<longleftrightarrow>
     chunk_id c = getBaseName (chunk_file c) @ '':'' @ showNat (startLine c) @ ''-'' @ showNat (endLine c)"


section \<open>Properties of the sampler\<close>

text \<open>
  Claim C6.  For every file list, every list of rule hits and every cap (a number of files),
  the sampler returns at most \<open>maxFiles\<close> files.
\<close>

theorem sampler_length_le_cap:
  "length (intelligentSampling mm files hs maxFiles) \<le> maxFiles"
  by (simp add: intelligentSampling_def Let_def)

subsection \<open>Both passes only append\<close>

lemma firstPass_prefix: "prefix sel (firstPass m xs sel)"
proof (induction xs arbitrary: sel)
  case Nil
  then show ?case by simp
next
  case (Cons x xs)
  have "prefix sel (firstPass m xs (sel @ [x]))"
    using Cons.IH[of "sel @ [x]"] by (rule append_prefixD)
  with Cons.IH[of sel] show ?case by (simp add: Let_def)
qed

lemma secondPass_prefix: "prefix sel (secondPass m xs sel)"
proof (induction xs arbitrary: sel)
  case Nil
  then show ?case by simp
next
  case (Cons x xs)
  have "prefix sel (secondPass m xs (sel @ [x]))"
    using Cons.IH[of "sel @ [x]"] by (rule append_prefixD)
  with Cons.IH[of sel] show ?case by simp
qed

lemma firstPass_keeps:
  "j < length xs \<Longrightarrow> length sel + j < m \<Longrightarrow> typeQuotas m (primaryTypeOf (snd (xs ! j))) = Infinity
    \<Longrightarrow> xs ! j \<in> set (take (Suc (length sel + j)) (firstPass m xs sel))"
proof (induction xs arbitrary: sel j)
  case Nil
  then show ?case by simp
next
  case (Cons x xs)
  show ?case
  proof (cases j)
    case 0
    with Cons.prems have q: "typeQuotas m (primaryTypeOf (snd x)) = Infinity" and lt: "length sel < m"
      by simp_all
    obtain ys where "firstPass m xs (sel @ [x]) = (sel @ [x]) @ ys"
      using firstPass_prefix[of "sel @ [x]" m xs] by (auto simp: prefix_def)
    with q lt 0 show ?thesis by (simp add: Let_def)
  next
    case (Suc j')
    with Cons.prems have j': "j' < length xs" and lt: "length sel < m"
      and q: "typeQuotas m (primaryTypeOf (snd (xs ! j'))) = Infinity"
      by simp_all
    let ?sel' = "if belowQuota (length (filter (\<lambda>f. includesStr (reason (snd f)) (primaryTypeOf (snd x))) sel))
                      (typeQuotas m (primaryTypeOf (snd x))) then sel @ [x] else sel"
    have step: "firstPass m (x # xs) sel = firstPass m xs ?sel'"
      using lt by (simp add: Let_def)
    have len: "length ?sel' \<le> Suc (length sel)" by simp
    have "length ?sel' + j' < m" using Cons.prems(2) Suc len by (simp split: if_splits)
    from Cons.IH[OF j' this q]
    have "xs ! j' \<in> set (take (Suc (length ?sel' + j')) (firstPass m xs ?sel'))" .
    moreover have "Suc (length ?sel' + j') \<le> Suc (length sel + j)" using Suc len by (simp split: if_splits)
    ultimately have "xs ! j' \<in> set (take (Suc (length sel + j)) (firstPass m xs ?sel'))"
      by (meson set_take_subset_set_take subsetD)
    then show ?thesis using step Suc by simp
  qed
qed

lemma award_hd: "\<exists>ts. snd a = t # ts \<Longrightarrow> \<exists>ts. snd (award c p tag a) = t # ts"
  by (auto simp: award_def)

lemma sizeAward_hd: "\<exists>ts. snd a = t # ts \<Longrightarrow> \<exists>ts. snd (sizeAward len a) = t # ts"
  by (auto simp: sizeAward_def Let_def)

lemma joinWith_hd_takeWhile:
  "CHR '','' \<notin> set t \<Longrightarrow> takeWhile (\<lambda>c. c \<noteq> CHR '','') (joinWith '','' (t # ts)) = t"
proof (cases ts)
  case Nil
  assume "CHR '','' \<notin> set t"
  then have "takeWhile (\<lambda>c. c \<noteq> CHR '','') t = t" by (intro takeWhile_eq_all_conv[THEN iffD2]) auto
  with Nil show ?thesis by simp
next
  case (Cons u us)
  assume "CHR '','' \<notin> set t"
  then have "takeWhile (\<lambda>c. c \<noteq> CHR '','') (t @ '','' @ joinWith '','' (u # us)) = t"
    by (subst takeWhile_append2) auto
  with Cons show ?thesis by simp
qed

lemma joinWith_ne: "t \<noteq> [] \<Longrightarrow> joinWith sep (t # ts) \<noteq> []"
  by (cases ts) simp_all

lemma scoreFile_path: "path (scoreFile mm flagged f) = path f"
  by (simp add: scoreFile_def Let_def repo_file.defs)

lemma scoreOf_flagged:
  assumes "path f \<in> set flagged"
  shows "\<exists>ts. snd (scoreOf mm flagged f) = ''heuristic-hit'' # ts"
proof -
  have start: "\<exists>ts. snd (award (path f \<in> set flagged) 10 ''heuristic-hit'' (0, [])) = ''heuristic-hit'' # ts"
    using assms by (simp add: award_def)
  show ?thesis
    unfolding scoreOf_def Let_def
    by (rule award_hd, rule award_hd, rule sizeAward_hd, rule award_hd, rule award_hd,
        rule award_hd, rule award_hd, rule award_hd, rule award_hd, rule award_hd, rule start)
qed

lemma scoreFile_flagged_reasons:
  assumes "path f \<in> set flagged"
  shows "\<exists>ts. reason (scoreFile mm flagged f) = joinWith '','' (''heuristic-hit'' # ts)"
proof -
  obtain ts where a: "snd (scoreOf mm flagged f) = ''heuristic-hit'' # ts"
    using scoreOf_flagged[OF assms] by blast
  have "joinWith '','' (''heuristic-hit'' # ts) \<noteq> []" by (rule joinWith_ne) simp
  with a show ?thesis by (auto simp: scoreFile_def Let_def repo_file.defs)
qed

lemma scoreFile_flagged_primary:
  assumes "path f \<in> set flagged"
  shows "primaryTypeOf (scoreFile mm flagged f) = ''heuristic-hit''"
proof -
  obtain ts where "reason (scoreFile mm flagged f) = joinWith '','' (''heuristic-hit'' # ts)"
    using scoreFile_flagged_reasons[OF assms] by blast
  then show ?thesis
    unfolding primaryTypeOf_def by (simp only: joinWith_hd_takeWhile[of "''heuristic-hit''", simplified])
qed

lemma scoredFiles_member:
  assumes "x \<in> set (scoredFiles mm files hs)"
  shows "\<exists>f. x = scoreFile mm (map hit_file hs) f"
  using assms by (auto simp: scoredFiles_def)


lemma flagged_position_selected:
  assumes i: "i < length (scoredFiles mm files hs)"
      and cap: "i < maxFiles"
      and hit: "path (scoredFiles mm files hs ! i) \<in> set (map hit_file hs)"
  shows "scoredFiles mm files hs ! i \<in> set (intelligentSampling mm files hs maxFiles)"
proof -
  let ?sc = "scoredFiles mm files hs"
  let ?en = "enumerate 0 ?sc"
  let ?fp = "firstPass maxFiles ?en []"
  let ?sp = "secondPass maxFiles ?en ?fp"
  have "?sc ! i \<in> set ?sc" using i by simp
  then obtain f where f: "?sc ! i = scoreFile mm (map hit_file hs) f"
    using scoredFiles_member by blast
  with hit have "path f \<in> set (map hit_file hs)" by (simp add: scoreFile_path)
  then have prim: "primaryTypeOf (?sc ! i) = ''heuristic-hit''"
    using f scoreFile_flagged_primary by simp
  have nth: "?en ! i = (i, ?sc ! i)" using i by (simp add: nth_enumerate_eq)
  have q: "typeQuotas maxFiles (primaryTypeOf (snd (?en ! i))) = Infinity"
    by (simp add: nth prim typeQuotas_def)
  have "?en ! i \<in> set (take (Suc (length ([] :: (nat \<times> file_with_priority) list) + i)) ?fp)"
    by (rule firstPass_keeps) (use i cap q in simp_all)
  then have "(i, ?sc ! i) \<in> set (take (Suc i) ?fp)" by (simp add: nth)
  moreover obtain zs where "?sp = ?fp @ zs"
    using secondPass_prefix[of ?fp maxFiles ?en] by (auto simp: prefix_def)
  ultimately have "(i, ?sc ! i) \<in> set (take (Suc i) ?sp)" by auto
  moreover have "Suc i \<le> maxFiles" using cap by simp
  ultimately have "(i, ?sc ! i) \<in> set (take maxFiles ?sp)"
    by (meson set_take_subset_set_take subsetD)
  then have "snd (i, ?sc ! i) \<in> snd ` set (take maxFiles ?sp)" by (rule imageI)
  then show ?thesis by (simp add: intelligentSampling_def Let_def)
qed



text \<open>
  Claim C1, as stated, fails: with cap 1 and two flagged text files the second flagged file
  is not returned.
\<close>

theorem sampler_drops_flagged_counterexample:
  "fileB \<in> set [fileA, fileB] \<and> \<not> isBinary fileB \<and> content fileB \<noteq> None
    \<and> path fileB \<in> set (map hit_file [hitA, hitB])
    \<and> path fileB \<notin> set (map path (intelligentSampling noMatch [fileA, fileB] [hitA, hitB] 1))"
  by code_simp

text \<open>
  Claim C1, amended.  (1) A scored file that is referenced by a rule hit and has fewer than
  \<open>maxFiles\<close> files before it in the priority order is returned: the heuristic-hit
  category has no quota.  (2) Hence every non-binary file with content that is referenced by
  a rule hit is returned when the cap is at least the number of non-binary files with
  content.
\<close>

theorem sampler_keeps_flagged_within_cap:
  "(i < length (scoredFiles mm files hs) \<and> i < maxFiles
      \<and> path (scoredFiles mm files hs ! i) \<in> set (map hit_file hs)
      \<longrightarrow> scoredFiles mm files hs ! i \<in> set (intelligentSampling mm files hs maxFiles))
   \<and> (f \<in> set files \<and> \<not> isBinary f \<and> content f \<noteq> None \<and> path f \<in> set (map hit_file hs)
      \<and> length (filter (\<lambda>g. \<not> isBinary g \<and> content g \<noteq> None) files) \<le> maxFiles
      \<longrightarrow> scoreFile mm (map hit_file hs) f \<in> set (intelligentSampling mm files hs maxFiles))"
proof (intro conjI impI)
  assume "i < length (scoredFiles mm files hs) \<and> i < maxFiles
      \<and> path (scoredFiles mm files hs ! i) \<in> set (map hit_file hs)"
  then show "scoredFiles mm files hs ! i \<in> set (intelligentSampling mm files hs maxFiles)"
    using flagged_position_selected by blast
next
  assume a: "f \<in> set files \<and> \<not> isBinary f \<and> content f \<noteq> None \<and> path f \<in> set (map hit_file hs)
      \<and> length (filter (\<lambda>g. \<not> isBinary g \<and> content g \<noteq> None) files) \<le> maxFiles"
  then have "scoreFile mm (map hit_file hs) f \<in> set (scoredFiles mm files hs)"
    by (simp add: scoredFiles_def)
  then obtain k where k: "k < length (scoredFiles mm files hs)"
      and sk: "scoredFiles mm files hs ! k = scoreFile mm (map hit_file hs) f"
    by (auto simp: in_set_conv_nth)
  have "length (scoredFiles mm files hs) \<le> maxFiles" using a by (simp add: scoredFiles_def)
  with k have "k < maxFiles" by simp
  moreover have "path (scoredFiles mm files hs ! k) \<in> set (map hit_file hs)"
    using a by (simp add: sk scoreFile_path)
  ultimately have "scoredFiles mm files hs ! k \<in> set (intelligentSampling mm files hs maxFiles)"
    using k by (intro flagged_position_selected)
  then show "scoreFile mm (map hit_file hs) f \<in> set (intelligentSampling mm files hs maxFiles)"
    by (simp add: sk)
qed

theorem sampler_keeps_flagged_within_cap_witness:
  "0 < length (scoredFiles noMatch [fileA, fileB] [hitA, hitB]) \<and> (0 :: nat) < 1
    \<and> path (scoredFiles noMatch [fileA, fileB] [hitA, hitB] ! 0) \<in> set (map hit_file [hitA, hitB])
    \<and> scoredFiles noMatch [fileA, fileB] [hitA, hitB] ! 0
        \<in> set (intelligentSampling noMatch [fileA, fileB] [hitA, hitB] 1)
    \<and> fileB \<in> set [fileA, fileB] \<and> \<not> isBinary fileB \<and> content fileB \<noteq> None
    \<and> path fileB \<in> set (map hit_file [hitA, hitB])
    \<and> length (filter (\<lambda>g. \<not> isBinary g \<and> content g \<noteq> None) [fileA, fileB]) \<le> 2
    \<and> scoreFile noMatch (map hit_file [hitA, hitB]) fileB
        \<in> set (intelligentSampling noMatch [fileA, fileB] [hitA, hitB] 2)"
proof -
  have h1: "0 < length (scoredFiles noMatch [fileA, fileB] [hitA, hitB])" by code_simp
  have h2: "(0 :: nat) < 1" by simp
  have h3: "path (scoredFiles noMatch [fileA, fileB] [hitA, hitB] ! 0) \<in> set (map hit_file [hitA, hitB])"
    by code_simp
  have g: "fileB \<in> set [fileA, fileB] \<and> \<not> isBinary fileB \<and> content fileB \<noteq> None
    \<and> path fileB \<in> set (map hit_file [hitA, hitB])
    \<and> length (filter (\<lambda>g. \<not> isBinary g \<and> content g \<noteq> None) [fileA, fileB]) \<le> 2"
    by (simp add: fileA_def fileB_def hitA_def hitB_def)
  from sampler_keeps_flagged_within_cap[of 0 noMatch "[fileA, fileB]" "[hitA, hitB]" 1] h1 h2 h3
  have r1: "scoredFiles noMatch [fileA, fileB] [hitA, hitB] ! 0
        \<in> set (intelligentSampling noMatch [fileA, fileB] [hitA, hitB] 1)"
    by blast
  from sampler_keeps_flagged_within_cap[of _ noMatch "[fileA, fileB]" "[hitA, hitB]" 2 fileB] g
  have r2: "scoreFile noMatch (map hit_file [hitA, hitB]) fileB
        \<in> set (intelligentSampling noMatch [fileA, fileB] [hitA, hitB] 2)"
    by blast
  from h1 h2 h3 g r1 r2 show ?thesis by blast
qed


section \<open>Properties of the output normalizer\<close>

lemma trim_Nil: "trim [] = []" by (simp add: trim_def)

lemma indexOf_Some_ne: "indexOf s c = Some i \<Longrightarrow> s \<noteq> []" by (cases s) auto

lemma normalize_array: "normalizeAgentOutput parse agent (RArray xs) ws = (xs, ws)"
  by (simp add: normalizeAgentOutput_def)

lemma normalize_slice:
  assumes p1: "parse (trim t) = Inl e"
      and i: "indexOf (trim t) CHR ''['' = Some i"
      and j: "lastIndexOf (trim t) CHR '']'' = Some j"
      and lt: "i < j"
      and p2: "parse (slice (trim t) i (j + 1)) = Inr (RArray xs)"
  shows "normalizeAgentOutput parse agent (RString t) ws
         = (xs, ws @ [agent @ '': parsed after array-slice extraction''])"
proof -
  have ne: "trim t \<noteq> []" using i by (rule indexOf_Some_ne)
  then have tne: "t \<noteq> []" using trim_Nil by auto
  have neq: "slice (trim t) i (j + 1) \<noteq> trim t" using p1 p2 by auto
  have att: "attempts (trim t) = [(''raw'', trim t), (''array-slice'', slice (trim t) i (j + 1))]"
    using i j lt neq by (simp add: attempts_def Let_def)
  show ?thesis
    using ne tne p1 p2 by (simp add: normalizeAgentOutput_def att)
qed

lemma attempts_cases:
  "attempts tr = [(''raw'', tr)]
   \<or> (\<exists>i j. indexOf tr CHR ''['' = Some i \<and> lastIndexOf tr CHR '']'' = Some j \<and> i < j
          \<and> attempts tr = [(''raw'', tr), (''array-slice'', slice tr i (j + 1))])"
proof (cases "indexOf tr CHR ''[''")
  case None
  then show ?thesis by (simp add: attempts_def)
next
  case (Some i)
  note i = this
  show ?thesis
  proof (cases "lastIndexOf tr CHR '']''")
    case None
    with i show ?thesis by (simp add: attempts_def)
  next
    case (Some j)
    with i show ?thesis by (simp add: attempts_def Let_def)
  qed
qed

lemma normalize_unparseable:
  assumes ne: "trim t \<noteq> []"
      and p1: "parse (trim t) = Inl e"
      and p2: "\<forall>i j. indexOf (trim t) CHR ''['' = Some i \<longrightarrow> lastIndexOf (trim t) CHR '']'' = Some j
                 \<longrightarrow> i < j \<longrightarrow> isl (parse (slice (trim t) i (j + 1)))"
  shows "\<exists>msg. normalizeAgentOutput parse agent (RString t) ws
         = ([], ws @ [agent @ '': failed to parse JSON ('' @ msg @ '')''])"
proof -
  have tne: "t \<noteq> []" using ne trim_Nil by auto
  consider (one) "attempts (trim t) = [(''raw'', trim t)]"
    | (two) i j where "indexOf (trim t) CHR ''['' = Some i" "lastIndexOf (trim t) CHR '']'' = Some j" "i < j"
         "attempts (trim t) = [(''raw'', trim t), (''array-slice'', slice (trim t) i (j + 1))]"
    using attempts_cases[of "trim t"] by blast
  then show ?thesis
  proof cases
    case one
    then show ?thesis using ne tne p1 by (simp add: normalizeAgentOutput_def)
  next
    case two
    with p2 obtain e2 where "parse (slice (trim t) i (j + 1)) = Inl e2"
      by (metis isl_def)
    with two show ?thesis using ne tne p1 by (simp add: normalizeAgentOutput_def)
  qed
qed


text \<open>
  Claim C3.  (1) An array is returned as it is and no warning is appended.  (2) A text whose
  trimmed form does not parse, while the slice from its first opening bracket to its last
  closing bracket parses to an array, yields that array and exactly one warning, the one of
  the array-slice recovery.  (3) A text for which every attempt fails to parse yields the
  empty list and exactly one warning, which reports the empty response or the parse failure.
\<close>

theorem normalizeAgentOutput_cases:
  "normalizeAgentOutput parse agent (RArray xs) ws = (xs, ws)
   \<and> (parse (trim t) = Inl e \<longrightarrow> indexOf (trim t) CHR ''['' = Some i
        \<longrightarrow> lastIndexOf (trim t) CHR '']'' = Some j \<longrightarrow> i < j
        \<longrightarrow> parse (slice (trim t) i (j + 1)) = Inr (RArray ys)
        \<longrightarrow> normalizeAgentOutput parse agent (RString t) ws
            = (ys, ws @ [agent @ '': parsed after array-slice extraction'']))
   \<and> (isl (parse (trim u))
        \<longrightarrow> (\<forall>i j. indexOf (trim u) CHR ''['' = Some i \<longrightarrow> lastIndexOf (trim u) CHR '']'' = Some j
               \<longrightarrow> i < j \<longrightarrow> isl (parse (slice (trim u) i (j + 1))))
        \<longrightarrow> (\<exists>w. normalizeAgentOutput parse agent (RString u) ws = ([], ws @ [w])
               \<and> (w = agent @ '': empty response from model''
                    \<or> (\<exists>msg. w = agent @ '': failed to parse JSON ('' @ msg @ '')''))))"
proof (intro conjI impI)
  show "normalizeAgentOutput parse agent (RArray xs) ws = (xs, ws)"
    by (rule normalize_array)
next
  assume "parse (trim t) = Inl e" "indexOf (trim t) CHR ''['' = Some i"
    "lastIndexOf (trim t) CHR '']'' = Some j" "i < j"
    "parse (slice (trim t) i (j + 1)) = Inr (RArray ys)"
  then show "normalizeAgentOutput parse agent (RString t) ws
      = (ys, ws @ [agent @ '': parsed after array-slice extraction''])"
    by (rule normalize_slice)
next
  assume p1: "isl (parse (trim u))"
    and p2: "\<forall>i j. indexOf (trim u) CHR ''['' = Some i \<longrightarrow> lastIndexOf (trim u) CHR '']'' = Some j
               \<longrightarrow> i < j \<longrightarrow> isl (parse (slice (trim u) i (j + 1)))"
  show "\<exists>w. normalizeAgentOutput parse agent (RString u) ws = ([], ws @ [w])
          \<and> (w = agent @ '': empty response from model''
               \<or> (\<exists>msg. w = agent @ '': failed to parse JSON ('' @ msg @ '')''))"
  proof (cases "trim u = []")
    case True
    then show ?thesis by (simp add: normalizeAgentOutput_def)
  next
    case False
    from p1 obtain e1 where "parse (trim u) = Inl e1" by (auto simp: isl_def)
    from normalize_unparseable[OF False this p2]
    show ?thesis by blast
  qed
qed

theorem normalizeAgentOutput_cases_witness:
  "normalizeAgentOutput exampleParse ''ux'' (RArray [emptyItem]) [] = ([emptyItem], [])
   \<and> exampleParse (trim '' Sure: [{}] ok '') = Inl ''Unexpected token''
   \<and> indexOf (trim '' Sure: [{}] ok '') CHR ''['' = Some 6
   \<and> lastIndexOf (trim '' Sure: [{}] ok '') CHR '']'' = Some 9
   \<and> (6 :: nat) < 9
   \<and> exampleParse (slice (trim '' Sure: [{}] ok '') 6 (9 + 1)) = Inr (RArray [emptyItem])
   \<and> normalizeAgentOutput exampleParse ''ux'' (RString '' Sure: [{}] ok '') []
       = ([emptyItem], [''ux: parsed after array-slice extraction''])
   \<and> isl (exampleParse (trim ''no json here''))
   \<and> indexOf (trim ''no json here'') CHR ''['' = None
   \<and> normalizeAgentOutput exampleParse ''ux'' (RString ''no json here'') []
       = ([], [''ux: failed to parse JSON (Unexpected token)''])"
proof -
  note inst = normalizeAgentOutput_cases[of exampleParse "''ux''" "[emptyItem]" "[]"
      "'' Sure: [{}] ok ''" "''Unexpected token''" 6 9 "[emptyItem]" "''no json here''"]
  have a: "exampleParse (trim '' Sure: [{}] ok '') = Inl ''Unexpected token''" by code_simp
  have b: "indexOf (trim '' Sure: [{}] ok '') CHR ''['' = Some 6" by code_simp
  have c: "lastIndexOf (trim '' Sure: [{}] ok '') CHR '']'' = Some 9" by code_simp
  have d: "(6 :: nat) < 9" by simp
  have e: "exampleParse (slice (trim '' Sure: [{}] ok '') 6 (9 + 1)) = Inr (RArray [emptyItem])"
    by code_simp
  have f: "isl (exampleParse (trim ''no json here''))" by code_simp
  have g: "indexOf (trim ''no json here'') CHR ''['' = None" by code_simp
  have r1: "normalizeAgentOutput exampleParse ''ux'' (RArray [emptyItem]) [] = ([emptyItem], [])"
    using inst by blast
  have r2: "normalizeAgentOutput exampleParse ''ux'' (RString '' Sure: [{}] ok '') []
       = ([emptyItem], [] @ [''ux'' @ '': parsed after array-slice extraction''])"
    using inst a b c d e by blast
  have "\<exists>w. normalizeAgentOutput exampleParse ''ux'' (RString ''no json here'') [] = ([], [] @ [w])"
    using inst f g by auto
  moreover have "normalizeAgentOutput exampleParse ''ux'' (RString ''no json here'') []
       = ([], [''ux: failed to parse JSON (Unexpected token)''])"
    by code_simp
  ultimately show ?thesis using a b c d e f g r1 r2 by simp
qed


section \<open>Properties of the report rendering\<close>

















section \<open>Properties of the coordinator\<close>

subsection \<open>What the steps of a run do to the provider module and to the call log\<close>

lemma stageIf_frame [simp]:
  "pm (stageIf ps st p msg d w) = pm w"
  "calls (stageIf ps st p msg d w) = calls w"
  "draws (stageIf ps st p msg d w) = draws w"
  by (simp_all add: stageIf_def)

lemma keepsSelection_refl [simp]: "keepsSelection m m"
  by (simp add: keepsSelection_def)

lemma keepsSelection_trans: "keepsSelection a b \<Longrightarrow> keepsSelection b c \<Longrightarrow> keepsSelection a c"
  by (auto simp: keepsSelection_def)

lemma resolveModel_keeps:
  "resolveModel cfg m = Inr (model, m') \<Longrightarrow> keepsSelection m m'"
  by (auto simp: resolveModel_def ensureOpenRouter_def keepsSelection_def split: if_splits sum.splits)

lemma errorText_plainError [simp]: "errorText (plainError msg) = None"
  by (simp add: errorText_def plainError_def truthyStr_def)

lemma resolveModel_error:
  "resolveModel cfg m = Inl e \<Longrightarrow> \<not> recoverable env e"
  by (auto simp: resolveModel_def ensureOpenRouter_def recoverable_def split: if_splits sum.splits)


lemma callAgent_keeps: "keepsSelection (pm w) (pm (snd (callAgent env req w)))"
  by (auto simp: callAgent_def Let_def dest: resolveModel_keeps split: sum.splits prod.splits)

lemma callAgent_fails:
  assumes "\<forall>p m. inference env p m req = Inl e" and "\<not> recoverable env e"
  shows "\<exists>e'. fst (callAgent env req w) = Inl e' \<and> \<not> recoverable env e'"
  using assms
  by (auto simp: callAgent_def Let_def dest: resolveModel_error[of _ _ _ env] split: sum.splits prod.splits)


lemma agentWrapper_keeps:
  "keepsSelection (pm w) (pm (snd (snd (agentWrapper env ps name req c w))))"
proof -
  obtain r w' where cw: "callAgent env req w = (r, w')" by (cases "callAgent env req w")
  then have "keepsSelection (pm w) (pm w')" using callAgent_keeps[of w env req] by simp
  then show ?thesis
    by (simp add: agentWrapper_def cw Let_def split: sum.splits option.splits)
qed

lemma agentWrapper_fails:
  assumes "\<forall>p m. inference env p m req = Inl e" and "\<not> recoverable env e"
  shows "isl (fst (agentWrapper env ps name req c w))"
proof -
  obtain e' where e': "fst (callAgent env req w) = Inl e'" "\<not> recoverable env e'"
    using callAgent_fails[OF assms] by blast
  then obtain w' where cw: "callAgent env req w = (Inl e', w')" by (cases "callAgent env req w") auto
  show ?thesis
    using e'(2) by (auto simp: agentWrapper_def cw Let_def recoverable_def split: option.splits sum.splits)
qed


lemma runAnalyzers_keeps:
  "keepsSelection (pm w) (pm (snd (snd (runAnalyzers env ps reqs c w))))"
proof (induction reqs arbitrary: c w)
  case Nil
  show ?case by simp
next
  case (Cons a reqs)
  obtain name req where a: "a = (name, req)" by (cases a)
  obtain r c1 w1 where aw: "agentWrapper env ps name req c w = (r, c1, w1)"
    by (cases "agentWrapper env ps name req c w")
  then have "keepsSelection (pm w) (pm w1)"
    using agentWrapper_keeps[of w env ps name req c] by simp
  with Cons.IH[of w1 c1] show ?case
    by (auto simp: a aw split: prod.splits intro: keepsSelection_trans)
qed



lemma promiseAll_Inl:
  "\<exists>r \<in> set rs. isl r \<Longrightarrow> isl (promiseAll rs)"
proof (induction rs)
  case Nil
  then show ?case by simp
next
  case (Cons r rs)
  then show ?case by (cases r) (auto split: sum.splits)
qed


lemma runAnalyzers_fails:
  assumes "(name, req) \<in> set reqs" and "\<forall>p m. inference env p m req = Inl e"
      and "\<not> recoverable env e"
  shows "\<exists>r \<in> set (fst (runAnalyzers env ps reqs c w)). isl r"
  using assms(1)
proof (induction reqs arbitrary: c w)
  case Nil
  then show ?case by simp
next
  case (Cons a reqs)
  obtain n q where a: "a = (n, q)" by (cases a)
  obtain r c1 w1 where aw: "agentWrapper env ps n q c w = (r, c1, w1)"
    by (cases "agentWrapper env ps n q c w")
  show ?case
  proof (cases "(name, req) = a")
    case True
    then have "isl (fst (agentWrapper env ps n q c w))"
      using agentWrapper_fails[OF assms(2,3)] a by simp
    then show ?thesis by (auto simp: a aw split: prod.splits)
  next
    case False
    with Cons.prems have "(name, req) \<in> set reqs" by simp
    from Cons.IH[OF this, of c1 w1] show ?thesis by (auto simp: a aw split: prod.splits)
  qed
qed

lemma prepare_frame [simp]:
  "pm (snd (prepare env input tp w)) = pm w"
  "calls (snd (prepare env input tp w)) = calls w"
  by (simp_all add: prepare_def Let_def)

lemma prepare_requests:
  "map (requestName \<circ> snd) (snd (snd (snd (snd (fst (prepare env input tp w)))))) = analyzerNames"
  "map fst (snd (snd (snd (snd (fst (prepare env input tp w)))))) = analyzerNames"
  by (simp_all add: prepare_def Let_def analyzerRequests_def analyzerNames_def)



lemma synthesize_keeps:
  "keepsSelection (pm w) (pm (snd (synthesize env input tp h n ch dsn outs w)))"
proof -
  let ?w1 = "stageIf (in_progressStream input) Synthesizing (calculateProgress Synthesizing 0)
                ''Processing agent results...'' None w"
  obtain merged ws d where mf:
    "mergeFindings env (zip [UX, Backend, DB, Security, Performance, Lint] outs) [] [] (draws w) = (merged, ws, d)"
    by (cases "mergeFindings env (zip [UX, Backend, DB, Security, Performance, Lint] outs) [] [] (draws w)")
  obtain r w2 where ca: "callAgent env (CodemodRequest (attachDocs dsn merged)) (?w1\<lparr>draws := d\<rparr>) = (r, w2)"
    by (cases "callAgent env (CodemodRequest (attachDocs dsn merged)) (?w1\<lparr>draws := d\<rparr>)")
  have c2: "keepsSelection (pm w) (pm w2)"
    using callAgent_keeps[of "?w1\<lparr>draws := d\<rparr>" env "CodemodRequest (attachDocs dsn merged)"]
    by (simp add: ca)
  show ?thesis
    by (cases r) (simp_all add: synthesize_def Let_def mf ca c2 split: prod.splits)
qed

lemma synthesize_stats:
  "fst (synthesize env input tp h n ch dsn outs w) = Inr report \<Longrightarrow> mapGet (stats report) ''agents'' = Some 6"
proof -
  let ?w1 = "stageIf (in_progressStream input) Synthesizing (calculateProgress Synthesizing 0)
                ''Processing agent results...'' None w"
  obtain merged ws d where mf:
    "mergeFindings env (zip [UX, Backend, DB, Security, Performance, Lint] outs) [] [] (draws w) = (merged, ws, d)"
    by (cases "mergeFindings env (zip [UX, Backend, DB, Security, Performance, Lint] outs) [] [] (draws w)")
  obtain r w2 where ca: "callAgent env (CodemodRequest (attachDocs dsn merged)) (?w1\<lparr>draws := d\<rparr>) = (r, w2)"
    by (cases "callAgent env (CodemodRequest (attachDocs dsn merged)) (?w1\<lparr>draws := d\<rparr>)")
  assume "fst (synthesize env input tp h n ch dsn outs w) = Inr report"
  then show ?thesis
    by (cases r) (auto simp: synthesize_def Let_def mf ca split: prod.splits)
qed



lemma auditBody_unfold:
  assumes "prepare env input tp w = ((h, n, ch, dsn, reqs), w1)"
      and "runAnalyzers env (in_progressStream input) reqs 0 w1 = (results, c, w2)"
  shows "auditBody env input tp w =
           (case promiseAll results of
              Inl err \<Rightarrow> (Inl err, w2)
            | Inr outs \<Rightarrow> synthesize env input tp h n ch dsn outs w2)"
  by (simp add: auditBody_def assms)

lemma auditBody_keeps: "keepsSelection (pm w) (pm (snd (auditBody env input tp w)))"
proof -
  obtain h n ch dsn reqs w1 where p: "prepare env input tp w = ((h, n, ch, dsn, reqs), w1)"
    by (metis prod.exhaust)
  obtain results c w2 where r: "runAnalyzers env (in_progressStream input) reqs 0 w1 = (results, c, w2)"
    by (metis prod.exhaust)
  have "pm w1 = pm w" using prepare_frame(1)[of env input tp w] by (simp add: p)
  moreover have "keepsSelection (pm w1) (pm w2)"
    using runAnalyzers_keeps[of w1 env "in_progressStream input" reqs 0] by (simp add: r)
  ultimately have k: "keepsSelection (pm w) (pm w2)" by simp
  show ?thesis
  proof (cases "promiseAll results")
    case (Inl e)
    then show ?thesis using k by (simp add: auditBody_unfold[OF p r])
  next
    case (Inr outs)
    then show ?thesis
      using keepsSelection_trans[OF k synthesize_keeps[of w2 env input tp h n ch dsn outs]]
      by (simp add: auditBody_unfold[OF p r])
  qed
qed

lemma auditBody_stats:
  assumes "fst (auditBody env input tp w) = Inr report"
  shows "mapGet (stats report) ''agents'' = Some 6"
proof -
  obtain h n ch dsn reqs w1 where p: "prepare env input tp w = ((h, n, ch, dsn, reqs), w1)"
    by (metis prod.exhaust)
  obtain results c w2 where r: "runAnalyzers env (in_progressStream input) reqs 0 w1 = (results, c, w2)"
    by (metis prod.exhaust)
  show ?thesis
  proof (cases "promiseAll results")
    case (Inl e)
    then show ?thesis using assms by (simp add: auditBody_unfold[OF p r])
  next
    case (Inr outs)
    then have "fst (synthesize env input tp h n ch dsn outs w2) = Inr report"
      using assms by (simp add: auditBody_unfold[OF p r])
    then show ?thesis by (rule synthesize_stats)
  qed
qed

lemma auditBody_fails:
  assumes name: "name \<in> set analyzerNames"
      and fail: "\<forall>p m req. requestName req = name \<longrightarrow> inference env p m req = Inl e"
      and notext: "\<not> recoverable env e"
  shows "isl (fst (auditBody env input tp w))"
proof -
  obtain h n ch dsn reqs w1 where p: "prepare env input tp w = ((h, n, ch, dsn, reqs), w1)"
    by (metis prod.exhaust)
  obtain results c w2 where r: "runAnalyzers env (in_progressStream input) reqs 0 w1 = (results, c, w2)"
    by (metis prod.exhaust)
  have "map (requestName \<circ> snd) reqs = analyzerNames"
    using prepare_requests(1)[of env input tp w] by (simp add: p)
  with name have "name \<in> (requestName \<circ> snd) ` set reqs" by (metis set_map)
  then obtain nm req where mem: "(nm, req) \<in> set reqs" and rn: "requestName req = name" by auto
  from fail rn have "\<forall>p m. inference env p m req = Inl e" by simp
  from runAnalyzers_fails[OF mem this notext, of "in_progressStream input" 0 w1]
  have "\<exists>x \<in> set results. isl x" by (simp add: r)
  then have "isl (promiseAll results)" by (rule promiseAll_Inl)
  then obtain e' where "promiseAll results = Inl e'" by (cases "promiseAll results") auto
  then show ?thesis by (simp add: auditBody_unfold[OF p r])
qed



text \<open>With a progress stream, the stages before the fan-out emit these eight values.\<close>

lemma prepare_progress_values:
  "in_progressStream input \<Longrightarrow>
     map progress (stream (snd (prepare env input tp w)))
       = map progress (stream w) @ [5, 40, 45, 25, 30, 30, 40, 45]"
  by (simp add: prepare_def Let_def stageIf_def stageEvent_def emit_def calculateProgress_def)

text \<open>A run is the body of the \<^verbatim>\<open>try\<close> block between the two provider switches.\<close>

lemma runFullAudit_unfold:
  "runFullAudit env input w =
     (fst (auditBody env input (case in_provider input of None \<Rightarrow> Vercel | Some p \<Rightarrow> p)
             (w\<lparr> pm := setAIProvider (case in_provider input of None \<Rightarrow> Vercel | Some p \<Rightarrow> p) (pm w) \<rparr>)),
      (snd (auditBody env input (case in_provider input of None \<Rightarrow> Vercel | Some p \<Rightarrow> p)
             (w\<lparr> pm := setAIProvider (case in_provider input of None \<Rightarrow> Vercel | Some p \<Rightarrow> p) (pm w) \<rparr>)))
        \<lparr> pm := setAIProvider (getAIProvider (pm w))
                 (pm (snd (auditBody env input (case in_provider input of None \<Rightarrow> Vercel | Some p \<Rightarrow> p)
                        (w\<lparr> pm := setAIProvider (case in_provider input of None \<Rightarrow> Vercel | Some p \<Rightarrow> p)
                                     (pm w) \<rparr>)))) \<rparr>)"
  by (simp add: runFullAudit_def Let_def split: prod.splits)

subsection \<open>One failing analyzer\<close>

text \<open>
  Claim C2, as stated, fails.  In the run below only the backend analyzer raises (an error
  without text); the run rejects with that error instead of returning a report with the
  findings of the other five analyzers and one warning.
\<close>

theorem one_failing_analyzer_counterexample:
  "map (isl \<circ> failingInference Vercel ''moonshotai/kimi-k2-0905'')
       (calls (snd (runFullAudit failingEnv exampleInput exampleWorld)))
     = [False, True, False, False, False, False]
   \<and> errorText (plainError ''rate limit exceeded'') = None
   \<and> fst (runFullAudit failingEnv exampleInput exampleWorld) = Inl (plainError ''rate limit exceeded'')"
  by code_simp

text \<open>
  Claim C2, amended.  If one of the six analyzers always raises an error that carries no
  recoverable text, the wrapper throws it again, \<^verbatim>\<open>Promise.all\<close> rejects and the run
  rejects: no report is returned.  Every report that a run does return has \<open>agents = 6\<close> in
  its stats.
\<close>

theorem analyzer_failure_rejects_run:
  "(name \<in> set analyzerNames
      \<and> (\<forall>p m req. requestName req = name \<longrightarrow> inference env p m req = Inl e)
      \<and> \<not> recoverable env e
      \<longrightarrow> isl (fst (runFullAudit env input w)))
   \<and> (fst (runFullAudit env input w) = Inr report \<longrightarrow> mapGet (stats report) ''agents'' = Some 6)"
proof (intro conjI impI)
  assume "name \<in> set analyzerNames
      \<and> (\<forall>p m req. requestName req = name \<longrightarrow> inference env p m req = Inl e)
      \<and> \<not> recoverable env e"
  then show "isl (fst (runFullAudit env input w))"
    using auditBody_fails[of name env e] by (simp add: runFullAudit_unfold)
next
  assume "fst (runFullAudit env input w) = Inr report"
  then show "mapGet (stats report) ''agents'' = Some 6"
    using auditBody_stats by (simp add: runFullAudit_unfold)
qed

theorem analyzer_failure_rejects_run_witness:
  "''Backend'' \<in> set analyzerNames
   \<and> failingInference Vercel ''moonshotai/kimi-k2-0905'' (BackendRequest ''Files: 2, Chunks:0, Heuristics:2'' [])
       = Inl (plainError ''rate limit exceeded'')
   \<and> \<not> recoverable failingEnv (plainError ''rate limit exceeded'')
   \<and> isl (fst (runFullAudit failingEnv exampleInput exampleWorld))
   \<and> \<not> isl (fst (runFullAudit exampleEnv exampleInput exampleWorld))
   \<and> mapGet (stats (projr (fst (runFullAudit exampleEnv exampleInput exampleWorld)))) ''agents'' = Some 6"
proof -
  have n: "''Backend'' \<in> set analyzerNames" by (simp add: analyzerNames_def)
  have f: "\<forall>p m req. requestName req = ''Backend''
             \<longrightarrow> inference failingEnv p m req = Inl (plainError ''rate limit exceeded'')"
  proof (intro allI impI)
    fix p m req assume "requestName req = ''Backend''"
    then show "inference failingEnv p m req = Inl (plainError ''rate limit exceeded'')"
      by (cases req) (simp_all add: failingEnv_def failingInference_def)
  qed
  have t: "\<not> recoverable failingEnv (plainError ''rate limit exceeded'')"
    by (simp add: recoverable_def)
  have c: "failingInference Vercel ''moonshotai/kimi-k2-0905''
             (BackendRequest ''Files: 2, Chunks:0, Heuristics:2'' [])
           = Inl (plainError ''rate limit exceeded'')"
    by (simp add: failingInference_def)
  have ok: "\<not> isl (fst (runFullAudit exampleEnv exampleInput exampleWorld))" by code_simp
  then obtain report where r: "fst (runFullAudit exampleEnv exampleInput exampleWorld) = Inr report"
    by (cases "fst (runFullAudit exampleEnv exampleInput exampleWorld)") auto
  note inst1 = analyzer_failure_rejects_run[of "''Backend''" failingEnv
      "plainError ''rate limit exceeded''" exampleInput exampleWorld]
  note inst2 = analyzer_failure_rejects_run[of _ exampleEnv _ exampleInput exampleWorld report]
  from inst1 n f t have "isl (fst (runFullAudit failingEnv exampleInput exampleWorld))" by blast
  moreover from inst2 r have "mapGet (stats report) ''agents'' = Some 6" by blast
  ultimately show ?thesis using n c t ok r by simp
qed

subsection \<open>Progress values\<close>

text \<open>
  Claim C4.  The progress values of the events of one run, in the order of emission.  The
  run emits the heuristics stage (40, 45) before the sampling stage (25) and the parsing
  stage (30), so the value decreases from 45 to 25.
\<close>

theorem progress_values_decrease_in_run:
  "map stage (take 5 (stream (snd (runFullAudit exampleEnv exampleInput exampleWorld))))
     = [Initializing, Heuristics, Heuristics, Sampling, Sampling]
   \<and> map progress (stream (snd (runFullAudit exampleEnv exampleInput exampleWorld)))
     = [5, 40, 45, 25, 30, 30, 40, 45, 155 / 3, 175 / 3, 65, 215 / 3, 235 / 3, 85, 85, 95, 100]
   \<and> \<not> sorted (map progress (stream (snd (runFullAudit exampleEnv exampleInput exampleWorld))))"
proof -
  have p: "map progress (stream (snd (runFullAudit exampleEnv exampleInput exampleWorld)))
     = [5, 40, 45, 25, 30, 30, 40, 45, 155 / 3, 175 / 3, 65, 215 / 3, 235 / 3, 85, 85, 95, 100]"
    by code_simp
  have s: "map stage (take 5 (stream (snd (runFullAudit exampleEnv exampleInput exampleWorld))))
     = [Initializing, Heuristics, Heuristics, Sampling, Sampling]"
    by code_simp
  have "\<not> sorted [5, 40, 45, 25, 30, 30, 40, 45, 155 / 3, 175 / 3, 65, 215 / 3, 235 / 3, 85, 85, 95, 100 :: rat]"
    by simp
  with p s show ?thesis by simp
qed

subsection \<open>The remediation planner\<close>


subsection \<open>The provider selection\<close>

text \<open>
  Claim C10.  After a call, whether it returned a report or rejected, the active provider is
  the one that was active before the call.  When the run does not select OpenRouter, the
  whole provider module is as before; a run on OpenRouter may in addition have created the
  cached client, which is not part of the selection.
\<close>

theorem provider_selection_restored:
  "getAIProvider (pm (snd (runFullAudit env input w))) = getAIProvider (pm w)
   \<and> (in_provider input \<noteq> Some OpenRouter \<longrightarrow> pm (snd (runFullAudit env input w)) = pm w)"
proof (intro conjI impI)
  show "getAIProvider (pm (snd (runFullAudit env input w))) = getAIProvider (pm w)"
    by (simp add: runFullAudit_unfold getAIProvider_def setAIProvider_def)
next
  let ?tp = "case in_provider input of None \<Rightarrow> Vercel | Some p \<Rightarrow> p"
  let ?w0 = "w\<lparr> pm := setAIProvider ?tp (pm w) \<rparr>"
  assume "in_provider input \<noteq> Some OpenRouter"
  then have tp: "?tp = Vercel"
    by (cases "in_provider input") (auto intro: AIProviderName.exhaust)
  have "keepsSelection (pm ?w0) (pm (snd (auditBody env input ?tp ?w0)))"
    by (rule auditBody_keeps)
  then have "pm (snd (auditBody env input ?tp ?w0)) = pm ?w0"
    by (simp add: keepsSelection_def tp setAIProvider_def)
  then show "pm (snd (runFullAudit env input w)) = pm w"
    by (simp add: runFullAudit_unfold getAIProvider_def setAIProvider_def)
qed

theorem provider_selection_restored_witness:
  "in_provider exampleInput \<noteq> Some OpenRouter
   \<and> \<not> isl (fst (runFullAudit exampleEnv exampleInput exampleWorld))
   \<and> pm (snd (runFullAudit exampleEnv exampleInput exampleWorld)) = pm exampleWorld
   \<and> isl (fst (runFullAudit failingEnv exampleInput exampleWorld))
   \<and> pm (snd (runFullAudit failingEnv exampleInput exampleWorld)) = pm exampleWorld
   \<and> getAIProvider (pm exampleWorld) = OpenRouter"
proof -
  have h: "in_provider exampleInput \<noteq> Some OpenRouter" by (simp add: exampleInput_def)
  have a: "\<not> isl (fst (runFullAudit exampleEnv exampleInput exampleWorld))" by code_simp
  have b: "isl (fst (runFullAudit failingEnv exampleInput exampleWorld))" by code_simp
  have g: "getAIProvider (pm exampleWorld) = OpenRouter"
    by (simp add: exampleWorld_def getAIProvider_def)
  from provider_selection_restored[of exampleEnv exampleInput exampleWorld] h
  have "pm (snd (runFullAudit exampleEnv exampleInput exampleWorld)) = pm exampleWorld" by blast
  moreover from provider_selection_restored[of failingEnv exampleInput exampleWorld] h
  have "pm (snd (runFullAudit failingEnv exampleInput exampleWorld)) = pm exampleWorld" by blast
  ultimately show ?thesis using h a b g by simp
qed


section \<open>Properties of the chunker\<close>

lemma showNat_1: "showNat (Suc 0) = ''1''"
  by (subst showNat.simps) simp

lemma addChunk_idOk: "idOk (addChunk sf k name s e)"
  by (simp add: idOk_def addChunk_def Let_def)

lemma visitNode_idOk: "c \<in> set (visitNode sf node) \<Longrightarrow> idOk c"
  by (auto simp: visitNode_def Let_def addChunk_idOk split: if_splits)

lemma chunkFile_idOk:
  assumes "\<forall>c \<in> set chunks. idOk c"
  shows "\<forall>c \<in> set (chunkFile parse chunks sf). idOk c"
proof -
  have fb: "idOk \<lparr> chunk_id = getBaseName (sf_path sf) @ '':1-'' @ showNat e, chunk_file = sf_path sf,
                   kind = KCode, chunk_name = None, chunk_text = sf_text sf, startLine = 1, endLine = e \<rparr>" for e
    by (simp add: idOk_def showNat_1)
  show ?thesis
    using assms fb by (auto simp: chunkFile_def Let_def dest: visitNode_idOk)
qed

lemma foldl_chunkFile_idOk:
  "\<forall>c \<in> set chunks. idOk c \<Longrightarrow> \<forall>c \<in> set (foldl (chunkFile parse) chunks sfs). idOk c"
proof (induction sfs arbitrary: chunks)
  case Nil
  then show ?case by simp
next
  case (Cons sf sfs)
  from chunkFile_idOk[OF Cons.prems] have "\<forall>c \<in> set (chunkFile parse chunks sf). idOk c" .
  from Cons.IH[OF this] show ?case by simp
qed

lemma buildCodeGraph_idOk: "c \<in> set (buildCodeGraph parse files) \<Longrightarrow> idOk c"
  using foldl_chunkFile_idOk[of "[]" parse "loadProject files"] by (simp add: buildCodeGraph_def)

text \<open>With the same base name and the same text, the chunks of the nodes differ in the file only.\<close>

lemma addChunk_other_file:
  assumes "getBaseName (sf_path a) = getBaseName (sf_path b)" "sf_text a = sf_text b"
  shows "addChunk b k name s e = (addChunk a k name s e)\<lparr> chunk_file := sf_path b \<rparr>"
  using assms by (simp add: addChunk_def Let_def)

lemma visitNode_other_file:
  assumes "getBaseName (sf_path a) = getBaseName (sf_path b)" "sf_text a = sf_text b"
  shows "visitNode b node = map (\<lambda>c. c\<lparr> chunk_file := sf_path b \<rparr>) (visitNode a node)"
  using assms by (simp add: visitNode_def Let_def addChunk_other_file[OF assms])

lemma visitNode_file: "c \<in> set (visitNode sf node) \<Longrightarrow> chunk_file c = sf_path sf"
  by (auto simp: visitNode_def Let_def addChunk_def split: if_splits)

lemma nodes_other_file:
  assumes "getBaseName (sf_path a) = getBaseName (sf_path b)" "sf_text a = sf_text b"
  shows "concat (map (visitNode b) ns) = map (\<lambda>c. c\<lparr> chunk_file := sf_path b \<rparr>) (concat (map (visitNode a) ns))"
  by (induction ns) (simp_all add: visitNode_other_file[OF assms])

lemma two_files_same_id:
  assumes base: "getBaseName (sf_path a) = getBaseName (sf_path b)"
      and same: "sf_text a = sf_text b"
      and neq: "sf_path a \<noteq> sf_path b"
  shows "\<exists>c1 c2. c1 \<in> set (foldl (chunkFile parse) [] [a, b]) \<and> c2 \<in> set (foldl (chunkFile parse) [] [a, b])
           \<and> chunk_file c1 = sf_path a \<and> chunk_file c2 = sf_path b \<and> chunk_id c1 = chunk_id c2"
proof -
  let ?ns = "parse (getBaseName (sf_path a)) (sf_text a)"
  let ?ca = "concat (map (visitNode a) ?ns)"
  let ?cb = "concat (map (visitNode b) ?ns)"
  have cb: "?cb = map (\<lambda>c. c\<lparr> chunk_file := sf_path b \<rparr>) ?ca"
    by (rule nodes_other_file[OF base same])
  have fa: "\<And>c. c \<in> set ?ca \<Longrightarrow> chunk_file c = sf_path a" by (auto dest: visitNode_file)
  have fb: "\<And>c. c \<in> set ?cb \<Longrightarrow> chunk_file c = sf_path b" by (auto dest: visitNode_file)
  show ?thesis
  proof (cases "?ca = []")
    case True
    then have cbe: "?cb = []" using cb by simp
    let ?e = "lineAt (sf_text a) (length (sf_text a))"
    let ?fa = "\<lparr> chunk_id = getBaseName (sf_path a) @ '':1-'' @ showNat ?e, chunk_file = sf_path a,
                 kind = KCode, chunk_name = None, chunk_text = sf_text a, startLine = 1, endLine = ?e \<rparr>"
    let ?fb = "\<lparr> chunk_id = getBaseName (sf_path b) @ '':1-'' @ showNat ?e, chunk_file = sf_path b,
                 kind = KCode, chunk_name = None, chunk_text = sf_text b, startLine = 1, endLine = ?e \<rparr>"
    have 1: "chunkFile parse [] a = [?fa]" using True by (simp add: chunkFile_def Let_def)
    have nb: "concat (map (visitNode b) (parse (getBaseName (sf_path b)) (sf_text b))) = []"
      using cbe base same by simp
    have 2: "chunkFile parse [?fa] b = [?fa, ?fb]"
      using neq by (simp add: chunkFile_def Let_def nb same)
    have "foldl (chunkFile parse) [] [a, b] = [?fa, ?fb]" by (simp only: foldl.simps 1 2)
    then show ?thesis using base by (intro exI[of _ ?fa] exI[of _ ?fb]) simp
  next
    case False
    then obtain c cs where ca: "?ca = c # cs" by (cases ?ca) auto
    have fc: "chunk_file c = sf_path a" using fa[of c] ca by simp
    have 1: "chunkFile parse [] a = ?ca" using ca fc by (simp add: chunkFile_def Let_def)
    let ?c' = "c\<lparr> chunk_file := sf_path b \<rparr>"
    have cb': "?cb = ?c' # map (\<lambda>c. c\<lparr> chunk_file := sf_path b \<rparr>) cs" using cb ca by simp
    have nb: "concat (map (visitNode b) (parse (getBaseName (sf_path b)) (sf_text b))) = ?cb"
      using base same by simp
    have 2: "chunkFile parse ?ca b = ?ca @ ?cb"
      unfolding chunkFile_def Let_def nb by (simp add: cb')
    have "foldl (chunkFile parse) [] [a, b] = ?ca @ ?cb" by (simp only: foldl.simps 1 2)
    then have "c \<in> set (foldl (chunkFile parse) [] [a, b])" "?c' \<in> set (foldl (chunkFile parse) [] [a, b])"
      using ca cb' by simp_all
    then show ?thesis using fc by (intro exI[of _ c] exI[of _ ?c']) simp
  qed
qed

lemma load_utils: "loadProject [utilA, utilB]
   = [\<lparr> sf_path = ''/app/util.ts'', sf_text = ''export const n = 1;'' \<rparr>,
      \<lparr> sf_path = ''/lib/util.ts'', sf_text = ''export const n = 1;'' \<rparr>]"
  by code_simp


text \<open>
  Claim C9.  The id of every chunk is built from the base name of its file and its line
  span; the directory does not enter.  For the two files \<^verbatim>\<open>app/util.ts\<close> and
  \<^verbatim>\<open>lib/util.ts\<close> with the same content, whatever the parser finds in that content, the
  chunker emits a chunk of the first file and a chunk of the second file with the same id.
\<close>

theorem chunk_ids_collide_across_directories:
  "(\<forall>c \<in> set (buildCodeGraph parse files).
      chunk_id c = getBaseName (chunk_file c) @ '':'' @ showNat (startLine c) @ ''-'' @ showNat (endLine c))
   \<and> path utilA \<noteq> path utilB \<and> content utilA = content utilB
   \<and> (\<exists>c1 c2. c1 \<in> set (buildCodeGraph parse [utilA, utilB])
          \<and> c2 \<in> set (buildCodeGraph parse [utilA, utilB])
          \<and> chunk_file c1 = ''/app/util.ts'' \<and> chunk_file c2 = ''/lib/util.ts''
          \<and> chunk_id c1 = chunk_id c2)"
proof (intro conjI ballI)
  fix c assume "c \<in> set (buildCodeGraph parse files)"
  then have "idOk c" by (rule buildCodeGraph_idOk)
  then show "chunk_id c = getBaseName (chunk_file c) @ '':'' @ showNat (startLine c) @ ''-''
               @ showNat (endLine c)"
    by (simp add: idOk_def)
next
  show "path utilA \<noteq> path utilB" by (simp add: utilA_def utilB_def)
  show "content utilA = content utilB" by (simp add: utilA_def utilB_def)
next
  let ?a = "\<lparr> sf_path = ''/app/util.ts'', sf_text = ''export const n = 1;'' \<rparr>"
  let ?b = "\<lparr> sf_path = ''/lib/util.ts'', sf_text = ''export const n = 1;'' \<rparr>"
  have "getBaseName (sf_path ?a) = getBaseName (sf_path ?b)" by (simp add: getBaseName_def)
  moreover have "sf_text ?a = sf_text ?b" by simp
  moreover have "sf_path ?a \<noteq> sf_path ?b" by simp
  ultimately have "\<exists>c1 c2. c1 \<in> set (foldl (chunkFile parse) [] [?a, ?b])
      \<and> c2 \<in> set (foldl (chunkFile parse) [] [?a, ?b])
      \<and> chunk_file c1 = sf_path ?a \<and> chunk_file c2 = sf_path ?b \<and> chunk_id c1 = chunk_id c2"
    by (rule two_files_same_id)
  then show "\<exists>c1 c2. c1 \<in> set (buildCodeGraph parse [utilA, utilB])
          \<and> c2 \<in> set (buildCodeGraph parse [utilA, utilB])
          \<and> chunk_file c1 = ''/app/util.ts'' \<and> chunk_file c2 = ''/lib/util.ts''
          \<and> chunk_id c1 = chunk_id c2"
    by (simp add: buildCodeGraph_def load_utils)
qed

theorem chunk_ids_collide_across_directories_witness:
  "\<lparr> chunk_id = ''util.ts:1-1'', chunk_file = ''/app/util.ts'', kind = KCode, chunk_name = None,
      chunk_text = ''export const n = 1;'', startLine = 1, endLine = 1 \<rparr>
     \<in> set (buildCodeGraph noDeclarations [utilA, utilB])
   \<and> \<lparr> chunk_id = ''util.ts:1-1'', chunk_file = ''/lib/util.ts'', kind = KCode, chunk_name = None,
        chunk_text = ''export const n = 1;'', startLine = 1, endLine = 1 \<rparr>
     \<in> set (buildCodeGraph noDeclarations [utilA, utilB])
   \<and> ''util.ts:1-1'' = getBaseName ''/app/util.ts'' @ '':'' @ showNat 1 @ ''-'' @ showNat 1"
proof -
  let ?c = "\<lparr> chunk_id = ''util.ts:1-1'', chunk_file = ''/app/util.ts'', kind = KCode,
              chunk_name = None, chunk_text = ''export const n = 1;'', startLine = 1, endLine = 1 \<rparr>"
  have m1: "?c \<in> set (buildCodeGraph noDeclarations [utilA, utilB])" by code_simp
  have m2: "\<lparr> chunk_id = ''util.ts:1-1'', chunk_file = ''/lib/util.ts'', kind = KCode, chunk_name = None,
        chunk_text = ''export const n = 1;'', startLine = 1, endLine = 1 \<rparr>
     \<in> set (buildCodeGraph noDeclarations [utilA, utilB])" by code_simp
  from chunk_ids_collide_across_directories[of noDeclarations "[utilA, utilB]"] m1
  have "chunk_id ?c = getBaseName (chunk_file ?c) @ '':'' @ showNat (startLine ?c) @ ''-''
          @ showNat (endLine ?c)"
    by blast
  then have "''util.ts:1-1'' = getBaseName ''/app/util.ts'' @ '':'' @ showNat 1 @ ''-'' @ showNat 1"
    by simp
  with m1 m2 show ?thesis by blast
qed


section \<open>Properties of the scan cache\<close>

text \<open>
  With a revision, the lookup does consult the store: on the empty store it sends one query.
\<close>

lemma lookup_with_revision_consults_store:
  "getCachedScan emptyStore 0 ''acme'' ''site'' (Some ''abc123'') ''vercel'' ''m'' noOptions
     = (None, emptyStore\<lparr> oplog := [RepoFindUnique] \<rparr>)"
  by (simp add: getCachedScan_def repoFindUnique_def emptyStore_def noOptions_def truthyStr_def Let_def)

text \<open>
  On the store that holds one cached report, the lookup with the revision of that report
  finds it (the issue rows carry the identifiers the store gave them).
\<close>

lemma lookup_with_revision_hits:
  "map_option issues (fst (getCachedScan warmStore 2000 ''acme'' ''site'' (Some ''abc123'') ''vercel''
         ''moonshotai/kimi-k2-0905'' noOptions))
     = Some (map (\<lambda>(k, i). i\<lparr> issue_id := ''id'' @ showNat k \<rparr>) (enumerate 2 threeSecurityIssues))
   \<and> oplog (snd (getCachedScan warmStore 2000 ''acme'' ''site'' (Some ''abc123'') ''vercel''
         ''moonshotai/kimi-k2-0905'' noOptions))
     = [RepoUpsert, ScanCreate, RepoFindUnique, ScanFindFirst]"
  by code_simp

text \<open>
  Claim C8.  Without a revision (\<^verbatim>\<open>null\<close> or \<^verbatim>\<open>undefined\<close>) the lookup returns \<^verbatim>\<open>null\<close>
  and leaves the store, with the log of the operations sent to it, as it was; storing a
  report without a revision leaves the store as it was, too.
\<close>

theorem cache_skipped_without_revision:
  "getCachedScan db now ow rp None prov mdl options = (None, db)
   \<and> oplog (snd (getCachedScan db now ow rp None prov mdl options)) = oplog db
   \<and> cacheScanResult db now result None = db"
  by (simp add: getCachedScan_def cacheScanResult_def truthyStr_def)

theorem cache_skipped_without_revision_witness:
  "fst (getCachedScan warmStore 2000 ''acme'' ''site'' None ''vercel'' ''moonshotai/kimi-k2-0905'' noOptions) = None
   \<and> oplog (snd (getCachedScan warmStore 2000 ''acme'' ''site'' None ''vercel'' ''moonshotai/kimi-k2-0905''
          noOptions)) = [RepoUpsert, ScanCreate]
   \<and> scans (cacheScanResult warmStore 2000 exampleReport None) = scans warmStore
   \<and> oplog (cacheScanResult warmStore 2000 exampleReport None) = [RepoUpsert, ScanCreate]"
proof -
  have o: "oplog warmStore = [RepoUpsert, ScanCreate]" by code_simp
  from cache_skipped_without_revision[of warmStore 2000 "''acme''" "''site''" "''vercel''"
      "''moonshotai/kimi-k2-0905''" noOptions exampleReport] o
  show ?thesis by simp
qed


end
